theory Spec2Isabelle
  imports
    Complex_Main
    "HOL-Library.List_Lexorder"
    "HOL-Library.Option_ord"
    "HOL-Library.Product_Lexorder"
begin

section \<open>Sales dashboard: the joining, filtering and aggregation pipeline\<close>

text \<open>
  The repository holds two scripts over the same three tables (transactions, products,
  customers): \<^verbatim>\<open>dashboard.py\<close> and the smaller \<^verbatim>\<open>tra.py\<close>. Both are straight-line
  scripts over a dataframe library. The model follows the scripts statement by
  statement: a table is a list of rows, a column that may hold a null is an \<open>option\<close>,
  a text is the list of its code points, a number is a \<open>real\<close>, and an exception is a
  value of type \<open>py_error\<close>. The not-a-number value is written out where the scripts
  can produce it. Three things that the scripts take from outside are parameters of
  the model: the case mappings of the Unicode character database (\<open>ucd\<close>), the reading
  of a cell of a file as a number (\<open>num\<close>), and the rounding of the arithmetic of a
  column of amounts (\<open>red\<close>), which is that of binary floating point for amounts with
  decimals and none for exact amounts. The rounding is followed in the two
  aggregates whose comparison depends on it, the total sales and the totals by
  category; the other sums are exact.
\<close>

subsection \<open>Exceptions\<close>

datatype py_error = AttributeError | TypeError | ValueError | ZeroDivisionError

subsection \<open>The colour ladder (\<^verbatim>\<open>obtener_color\<close>, dashboard.py lines 17-25)\<close>

definition obtener_color :: "real \<Rightarrow> string" where
  "obtener_color ventas =
     (if ventas > 1000000 then ''#ff0000''
      else if ventas > 500000 then ''#ff6600''
      else if ventas > 100000 then ''#ffcc00''
      else ''#33cc33'')"

subsection \<open>Text: \<^verbatim>\<open>str.strip\<close>, \<^verbatim>\<open>str.lower\<close>, \<^verbatim>\<open>string.capwords\<close>\<close>

text \<open>
  A text is a Python \<^verbatim>\<open>str\<close>: the list of its code points. \<open>texto_de\<close> writes a text
  of ASCII characters as a literal.
\<close>

type_synonym texto = "nat list"

definition texto_de :: "string \<Rightarrow> texto" where
  "texto_de s = map of_char s"

text \<open>
  What \<^verbatim>\<open>str.lower\<close> and \<^verbatim>\<open>str.capitalize\<close> read in the Unicode character database:
  the full lower-case and title-case mappings of a code point (one to three code
  points), and the properties Cased and Case_Ignorable.
\<close>

record ucd =
  lower_de :: "nat \<Rightarrow> texto"
  title_de :: "nat \<Rightarrow> texto"
  cased :: "nat \<Rightarrow> bool"
  case_ignorable :: "nat \<Rightarrow> bool"

text \<open>
  The whitespace of \<^verbatim>\<open>str.strip\<close> and \<^verbatim>\<open>str.split\<close>: the code points for which
  \<^verbatim>\<open>str.isspace\<close> holds (tab to carriage return, the separators 28-31, the space,
  U+0085, U+00A0, U+1680, U+2000 to U+200A, U+2028, U+2029, U+202F, U+205F, U+3000).
\<close>

definition es_espacio :: "nat \<Rightarrow> bool" where
  "es_espacio c =
     ((9 \<le> c \<and> c \<le> 13) \<or> (28 \<le> c \<and> c \<le> 32) \<or> c = 133 \<or> c = 160 \<or> c = 5760 \<or>
      (8192 \<le> c \<and> c \<le> 8202) \<or> c = 8232 \<or> c = 8233 \<or> c = 8239 \<or> c = 8287 \<or>
      c = 12288)"

definition strip :: "texto \<Rightarrow> texto" where
  "strip s = rev (dropWhile es_espacio (rev (dropWhile es_espacio s)))"

text \<open>
  \<^verbatim>\<open>str.lower\<close> maps each code point by the full lower-case mapping, but for the
  capital sigma (U+03A3, 931), which becomes the final sigma (962) when a cased
  code point stands before it and none after it, code points that are
  Case_Ignorable being skipped on both sides, and the small sigma (963) otherwise.
  \<open>lower_desde u antes s\<close> lowers \<open>s\<close>, which follows \<open>antes\<close> in the text.
\<close>

definition sigma_final :: "ucd \<Rightarrow> texto \<Rightarrow> texto \<Rightarrow> bool" where
  "sigma_final u antes despues =
     ((case dropWhile (case_ignorable u) (rev antes) of [] \<Rightarrow> False | c # cs \<Rightarrow> cased u c) \<and>
      (case dropWhile (case_ignorable u) despues of [] \<Rightarrow> True | c # cs \<Rightarrow> \<not> cased u c))"

fun lower_desde :: "ucd \<Rightarrow> texto \<Rightarrow> texto \<Rightarrow> texto" where
  "lower_desde u antes [] = []"
| "lower_desde u antes (c # cs) =
     (if c = 931 then [if sigma_final u antes cs then 962 else 963] else lower_de u c)
     @ lower_desde u (antes @ [c]) cs"

definition lower :: "ucd \<Rightarrow> texto \<Rightarrow> texto" where
  "lower u s = lower_desde u [] s"

text \<open>
  \<^verbatim>\<open>str.capitalize\<close>: the title-case mapping of the first code point, the rest
  lowered as \<^verbatim>\<open>str.lower\<close> does.
\<close>

definition capitalize :: "ucd \<Rightarrow> texto \<Rightarrow> texto" where
  "capitalize u s = (case s of [] \<Rightarrow> [] | c # cs \<Rightarrow> title_de u c @ lower_desde u [c] cs)"

text \<open>
  \<^verbatim>\<open>capwords(s)\<close> is \<^verbatim>\<open>' '.join(x.capitalize() for x in s.split())\<close>; \<open>split\<close> cuts at
  runs of whitespace and yields no empty word. \<open>split_desde w s\<close> reads \<open>s\<close> with the
  word \<open>w\<close> begun and not yet closed.
\<close>

fun split_desde :: "texto \<Rightarrow> texto \<Rightarrow> texto list" where
  "split_desde w [] = (if w = [] then [] else [w])"
| "split_desde w (c # cs) =
     (if es_espacio c then (if w = [] then split_desde [] cs else w # split_desde [] cs)
      else split_desde (w @ [c]) cs)"

definition split :: "texto \<Rightarrow> texto list" where
  "split s = split_desde [] s"

fun join :: "texto \<Rightarrow> texto list \<Rightarrow> texto" where
  "join sep [] = []"
| "join sep [w] = w"
| "join sep (w # ws) = w @ sep @ join sep ws"

definition capwords :: "ucd \<Rightarrow> texto \<Rightarrow> texto" where
  "capwords u s = join [32] (map (capitalize u) (split s))"

text \<open>
  Lines 48-50 of dashboard.py apply \<^verbatim>\<open>.str.strip().str.lower().apply(capwords)\<close> to
  a column; on one text this is \<open>normalizar_texto\<close>.
\<close>

definition normalizar_texto :: "ucd \<Rightarrow> texto \<Rightarrow> texto" where
  "normalizar_texto u s = capwords u (lower u (strip s))"







subsection \<open>Tables\<close>

text \<open>
  A date is the pair (calendar month, day of the month), the month counted from year
  0 as \<open>12 * year + month - 1\<close>; a timestamp adds the seconds since midnight. The
  lexicographic order on these pairs is the chronological order. Identifiers and
  free-text columns are the texts of the cells of the files and may be null. The
  columns \<^verbatim>\<open>nombre\<close> of the products and of the customers are \<open>p_nombre\<close> and
  \<open>c_nombre\<close> (the dataframe library renames them \<^verbatim>\<open>nombre_x\<close> and \<^verbatim>\<open>nombre_y\<close> in the
  joined table).
\<close>

type_synonym fecha = "nat \<times> nat"
type_synonym marca = "fecha \<times> nat"

record transaccion =
  transaccion_id :: nat
  fecha :: marca
  t_cliente_id :: "texto option"
  t_producto_id :: "texto option"
  cantidad :: int
  total :: real
  metodo_pago :: "texto option"

record producto =
  p_producto_id :: "texto option"
  p_nombre :: "texto option"
  categoria :: "texto option"
  stock :: "real option"

record cliente =
  c_cliente_id :: "texto option"
  c_nombre :: "texto option"
  apellido :: "texto option"
  email :: "texto option"
  ciudad :: "texto option"
  latitud :: "real option"
  longitud :: "real option"
  segmento :: "texto option"

subsection \<open>Joins (\<^verbatim>\<open>pd.merge\<close>)\<close>

text \<open>
  \<^verbatim>\<open>pd.merge(izq, der, on=key, how='left')\<close> keeps every row of the left table, in
  order: a left row is paired with each right row of the same key, and with nulls for
  every right column when there is none. The default \<^verbatim>\<open>how='inner'\<close> keeps only the
  pairs, so a left row without a match disappears. A null key matches a null key.
\<close>

definition merge_left ::
  "('a \<Rightarrow> 'k) \<Rightarrow> ('b \<Rightarrow> 'k) \<Rightarrow> 'a list \<Rightarrow> 'b list \<Rightarrow> ('a \<times> 'b option) list" where
  "merge_left kl kr izq der =
     concat (map (\<lambda>a. case filter (\<lambda>b. kr b = kl a) der of
                          [] \<Rightarrow> [(a, None)]
                        | bs \<Rightarrow> map (\<lambda>b. (a, Some b)) bs) izq)"

definition merge_inner ::
  "('a \<Rightarrow> 'k) \<Rightarrow> ('b \<Rightarrow> 'k) \<Rightarrow> 'a list \<Rightarrow> 'b list \<Rightarrow> ('a \<times> 'b) list" where
  "merge_inner kl kr izq der =
     concat (map (\<lambda>a. map (\<lambda>b. (a, b)) (filter (\<lambda>b. kr b = kl a) der)) izq)"

text \<open>
  The type of a key column. \<^verbatim>\<open>read_csv\<close> keeps the cells of a column as texts when it
  is told \<^verbatim>\<open>dtype='string'\<close> for it. Otherwise it infers the type: a column with at
  least one row in which every cell is null or reads as a number is a column of
  numbers (so that \<^verbatim>\<open>007\<close> and \<^verbatim>\<open>7\<close> are the same key), any other column is a column
  of texts. \<open>num\<close> is the reading of a cell as a number, \<open>None\<close> when it is not one.
  \<^verbatim>\<open>merge\<close> refuses with ValueError to join a column of texts with a column of
  numbers, unless one of the two tables has no row.
\<close>

datatype clave = Num real | Txt texto

definition columna_numerica :: "(texto \<Rightarrow> real option) \<Rightarrow> texto option list \<Rightarrow> bool" where
  "columna_numerica num col =
     (col \<noteq> [] \<and> list_all (\<lambda>c. case c of None \<Rightarrow> True | Some s \<Rightarrow> num s \<noteq> None) col)"

definition clave_de :: "(texto \<Rightarrow> real option) \<Rightarrow> bool \<Rightarrow> texto option \<Rightarrow> clave option" where
  "clave_de num numerica c =
     (case c of
        None \<Rightarrow> None
      | Some s \<Rightarrow> if numerica then map_option Num (num s) else Some (Txt s))"

definition claves_incompatibles :: "bool \<Rightarrow> 'a list \<Rightarrow> bool \<Rightarrow> 'b list \<Rightarrow> bool" where
  "claves_incompatibles nl izq nr der = (izq \<noteq> [] \<and> der \<noteq> [] \<and> nl \<noteq> nr)"

subsection \<open>Loading: \<^verbatim>\<open>load_data\<close> (dashboard.py lines 28-43), \<^verbatim>\<open>cargar_datos\<close> (tra.py lines 14-20)\<close>

text \<open>
  A joined row of dashboard.py is a transaction with the product and the customer it
  matched, if any; a column of the product or of the customer reads as null in a row
  without the match. A joined row of tra.py always has both.

  dashboard.py reads \<^verbatim>\<open>producto_id\<close> and \<^verbatim>\<open>cliente_id\<close> of the transactions and
  \<^verbatim>\<open>cliente_id\<close> of the customers as texts. For the products, line 37 names
  \<^verbatim>\<open>cliente_id\<close>, a column that the products do not have, so the type of their
  \<^verbatim>\<open>producto_id\<close> is inferred. tra.py infers the type of every column.
\<close>

type_synonym fila = "(transaccion \<times> producto option) \<times> cliente option"

definition load_data ::
  "(texto \<Rightarrow> real option) \<Rightarrow> transaccion list \<Rightarrow> producto list \<Rightarrow> cliente list \<Rightarrow>
   py_error + fila list \<times> cliente list" where
  "load_data num transacciones productos clientes =
     (let np = columna_numerica num (map p_producto_id productos)
      in if claves_incompatibles False transacciones np productos then Inl ValueError
         else
           let datos_comb =
                 merge_left (\<lambda>t. clave_de num False (t_producto_id t))
                   (\<lambda>p. clave_de num np (p_producto_id p)) transacciones productos;
               datos_comb =
                 merge_left (\<lambda>f. t_cliente_id (fst f)) c_cliente_id datos_comb clientes
           in Inr (datos_comb, clientes))"

type_synonym fila_tra = "(transaccion \<times> cliente) \<times> producto"

definition cargar_datos ::
  "(texto \<Rightarrow> real option) \<Rightarrow> cliente list \<Rightarrow> producto list \<Rightarrow> transaccion list \<Rightarrow>
   py_error + fila_tra list" where
  "cargar_datos num clientes productos transacciones =
     (let ntc = columna_numerica num (map t_cliente_id transacciones);
          ntp = columna_numerica num (map t_producto_id transacciones);
          nc = columna_numerica num (map c_cliente_id clientes);
          np = columna_numerica num (map p_producto_id productos)
      in if claves_incompatibles ntc transacciones nc clientes then Inl ValueError
         else
           let df = merge_inner (\<lambda>t. clave_de num ntc (t_cliente_id t))
                      (\<lambda>c. clave_de num nc (c_cliente_id c)) transacciones clientes
           in if claves_incompatibles ntp df np productos then Inl ValueError
              else Inr (merge_inner (\<lambda>f. clave_de num ntp (t_producto_id (fst f)))
                          (\<lambda>p. clave_de num np (p_producto_id p)) df productos))"

subsection \<open>Columns of the joined tables\<close>

definition col_fecha :: "fila \<Rightarrow> marca" where
  "col_fecha f = fecha (fst (fst f))"

definition col_total :: "fila \<Rightarrow> real" where
  "col_total f = total (fst (fst f))"

definition col_cliente_id :: "fila \<Rightarrow> texto option" where
  "col_cliente_id f = t_cliente_id (fst (fst f))"

definition col_metodo_pago :: "fila \<Rightarrow> texto option" where
  "col_metodo_pago f = metodo_pago (fst (fst f))"

definition col_categoria :: "fila \<Rightarrow> texto option" where
  "col_categoria f = (case snd (fst f) of None \<Rightarrow> None | Some p \<Rightarrow> categoria p)"

definition col_segmento :: "fila \<Rightarrow> texto option" where
  "col_segmento f = (case snd f of None \<Rightarrow> None | Some c \<Rightarrow> segmento c)"

definition tra_fecha :: "fila_tra \<Rightarrow> marca" where
  "tra_fecha f = fecha (fst (fst f))"

definition tra_total :: "fila_tra \<Rightarrow> real" where
  "tra_total f = total (fst (fst f))"

definition tra_cliente_id :: "fila_tra \<Rightarrow> texto option" where
  "tra_cliente_id f = t_cliente_id (fst (fst f))"

definition tra_categoria :: "fila_tra \<Rightarrow> texto option" where
  "tra_categoria f = categoria (snd f)"

subsection \<open>Column operations of the dataframe library\<close>

text \<open>
  \<open>unique\<close> keeps the first occurrence of each value, in order, a null included;
  \<open>dropna\<close> removes the nulls. Python's \<^verbatim>\<open>sorted\<close> over values among which a null (a
  float) stands next to a text raises TypeError, since a text and a float do not
  compare; a list of texts is sorted by code points.
\<close>

definition unique :: "'a list \<Rightarrow> 'a list" where
  "unique xs = rev (remdups (rev xs))"

definition dropna :: "'a option list \<Rightarrow> 'a list" where
  "dropna xs = concat (map (\<lambda>v. case v of None \<Rightarrow> [] | Some x \<Rightarrow> [x]) xs)"

definition sorted_py :: "texto option list \<Rightarrow> py_error + texto option list" where
  "sorted_py xs =
     (if None \<in> set xs \<and> dropna xs \<noteq> [] then Inl TypeError else Inr (sort xs))"

subsection \<open>Normalisation of the joined table (dashboard.py lines 48-50)\<close>

text \<open>
  \<^verbatim>\<open>df[c] = df[c].str.strip().str.lower().apply(capwords)\<close> for the columns
  \<^verbatim>\<open>categoria\<close>, \<^verbatim>\<open>segmento\<close> and \<^verbatim>\<open>metodo_pago\<close>, in this order. The string methods
  pass a null through, and \<^verbatim>\<open>apply\<close> then calls \<^verbatim>\<open>capwords\<close> on it, which raises
  AttributeError (a float has no \<^verbatim>\<open>split\<close>); a column of nulls only has no string
  methods, which raises AttributeError as well. So the script goes on only when the
  three columns hold no null, in particular only when every transaction found its
  product and its customer.
\<close>

fun apply_capwords :: "ucd \<Rightarrow> texto option list \<Rightarrow> py_error + texto list" where
  "apply_capwords u [] = Inr []"
| "apply_capwords u (None # vs) = Inl AttributeError"
| "apply_capwords u (Some s # vs) =
     (case apply_capwords u vs of
        Inl e \<Rightarrow> Inl e
      | Inr ss \<Rightarrow> Inr (normalizar_texto u s # ss))"

definition poner_categoria :: "texto \<Rightarrow> fila \<Rightarrow> fila" where
  "poner_categoria v f =
     ((fst (fst f), map_option (\<lambda>p. p\<lparr>categoria := Some v\<rparr>) (snd (fst f))), snd f)"

definition poner_segmento :: "texto \<Rightarrow> fila \<Rightarrow> fila" where
  "poner_segmento v f = (fst f, map_option (\<lambda>c. c\<lparr>segmento := Some v\<rparr>) (snd f))"

definition poner_metodo_pago :: "texto \<Rightarrow> fila \<Rightarrow> fila" where
  "poner_metodo_pago v f = (((fst (fst f))\<lparr>metodo_pago := Some v\<rparr>, snd (fst f)), snd f)"

definition normalizar_columna ::
  "ucd \<Rightarrow> (fila \<Rightarrow> texto option) \<Rightarrow> (texto \<Rightarrow> fila \<Rightarrow> fila) \<Rightarrow> fila list \<Rightarrow>
   py_error + fila list" where
  "normalizar_columna u leer poner df =
     (case apply_capwords u (map leer df) of
        Inl e \<Rightarrow> Inl e
      | Inr vs \<Rightarrow> Inr (map2 poner vs df))"

definition normalizar :: "ucd \<Rightarrow> fila list \<Rightarrow> py_error + fila list" where
  "normalizar u df =
     (case normalizar_columna u col_categoria poner_categoria df of
        Inl e \<Rightarrow> Inl e
      | Inr df1 \<Rightarrow>
         (case normalizar_columna u col_segmento poner_segmento df1 of
            Inl e \<Rightarrow> Inl e
          | Inr df2 \<Rightarrow> normalizar_columna u col_metodo_pago poner_metodo_pago df2))"

subsection \<open>The sidebar and the filter of dashboard.py (lines 53-108)\<close>

text \<open>
  The widgets offer, and select by default, the whole range of dates and every value
  of each column. On a table without rows the least of the column \<^verbatim>\<open>fecha\<close> is not a
  timestamp and has no \<^verbatim>\<open>date\<close>: line 57 raises AttributeError.
\<close>

record seleccion =
  fechas_seleccionadas :: "fecha \<times> fecha"
  categorias_seleccionadas :: "texto option list"
  segmentos_seleccionados :: "texto option list"
  metodo_pago_seleccionado :: "texto list"

definition rango_fechas :: "fila list \<Rightarrow> py_error + (fecha \<times> fecha)" where
  "rango_fechas df =
     (if df = [] then Inl AttributeError
      else Inr (fst (Min (set (map col_fecha df))), fst (Max (set (map col_fecha df)))))"

definition categorias_disponibles :: "fila list \<Rightarrow> py_error + texto option list" where
  "categorias_disponibles df = sorted_py (unique (map col_categoria df))"

definition segmentos :: "fila list \<Rightarrow> py_error + texto option list" where
  "segmentos df = sorted_py (unique (map col_segmento df))"

definition metodos_disponibles :: "fila list \<Rightarrow> texto list" where
  "metodos_disponibles df = sort (unique (dropna (map col_metodo_pago df)))"

definition por_defecto :: "fila list \<Rightarrow> py_error + seleccion" where
  "por_defecto df =
     (case rango_fechas df of
        Inl e \<Rightarrow> Inl e
      | Inr fechas \<Rightarrow>
         (case categorias_disponibles df of
            Inl e \<Rightarrow> Inl e
          | Inr cats \<Rightarrow>
             (case segmentos df of
                Inl e \<Rightarrow> Inl e
              | Inr segs \<Rightarrow>
                 Inr \<lparr>fechas_seleccionadas = fechas, categorias_seleccionadas = cats,
                      segmentos_seleccionados = segs,
                      metodo_pago_seleccionado = metodos_disponibles df\<rparr>)))"

text \<open>
  \<^verbatim>\<open>isin\<close> is membership in the selected values; a null cell is a member only of a
  selection that holds a null. The dates are compared as calendar dates
  (\<^verbatim>\<open>.dt.date\<close>), both ends included.
\<close>

definition condicion_filtro :: "seleccion \<Rightarrow> fila \<Rightarrow> bool" where
  "condicion_filtro sel f =
     (fst (col_fecha f) \<ge> fst (fechas_seleccionadas sel) \<and>
      fst (col_fecha f) \<le> snd (fechas_seleccionadas sel) \<and>
      col_categoria f \<in> set (categorias_seleccionadas sel) \<and>
      col_segmento f \<in> set (segmentos_seleccionados sel) \<and>
      col_metodo_pago f \<in> set (map Some (metodo_pago_seleccionado sel)))"

definition df_filtrado :: "seleccion \<Rightarrow> fila list \<Rightarrow> fila list" where
  "df_filtrado sel df = filter (condicion_filtro sel) df"

subsection \<open>The sidebar and the filter of tra.py (lines 25-41)\<close>

text \<open>
  tra.py hands the least and the greatest timestamp to the date widget, which returns
  calendar dates; \<^verbatim>\<open>pd.to_datetime\<close> of a date is that date at midnight, and the
  filter compares the timestamps of the rows with it. A table without rows has no
  timestamp to hand to the widget: the model stops there with ValueError.
\<close>

definition date_input :: "marca \<times> marca \<Rightarrow> fecha \<times> fecha" where
  "date_input valor = (fst (fst valor), fst (snd valor))"

definition to_datetime :: "fecha \<Rightarrow> marca" where
  "to_datetime d = (d, 0)"

definition por_defecto_tra :: "fila_tra list \<Rightarrow> py_error + (fecha \<times> fecha) \<times> texto option list" where
  "por_defecto_tra df =
     (if df = [] then Inl ValueError
      else Inr (date_input (Min (set (map tra_fecha df)), Max (set (map tra_fecha df))),
                unique (map tra_categoria df)))"

definition df_filtrado_tra ::
  "(fecha \<times> fecha) \<times> texto option list \<Rightarrow> fila_tra list \<Rightarrow> fila_tra list" where
  "df_filtrado_tra sel df =
     filter (\<lambda>f. tra_fecha f \<ge> to_datetime (fst (fst sel)) \<and>
                 tra_fecha f \<le> to_datetime (snd (fst sel)) \<and>
                 tra_categoria f \<in> set (snd sel)) df"

subsection \<open>Sums of amounts with rounding\<close>

text \<open>
  The sum of a column (\<^verbatim>\<open>Series.sum\<close>) is the sum of the array library, each addition
  rounded by \<open>red\<close>. Fewer than eight values are added from left to right, starting
  from 0. Up to 128 values are added in eight interleaved partial sums, which start
  as the first eight values and take each following block of eight values; the eight
  are then added in pairs, and the values left after the last whole block are added
  to the result one by one. More than 128 values are cut in two, the first part being
  half of them less what exceeds a multiple of eight, and the sums of the two
  parts are added. (The library adds the result to an initial 0, which changes
  nothing.) The sum within a group (\<^verbatim>\<open>groupby(...).sum()\<close>) is a compensated sum, from
  left to right: it carries the rounding error of each addition into the next one.
\<close>

definition sumar :: "(real \<Rightarrow> real) \<Rightarrow> real \<Rightarrow> real list \<Rightarrow> real" where
  "sumar red s xs = foldl (\<lambda>s x. red (s + x)) s xs"

fun acumular :: "(real \<Rightarrow> real) \<Rightarrow> real list \<Rightarrow> real list \<Rightarrow> real list" where
  "acumular red r (x0 # x1 # x2 # x3 # x4 # x5 # x6 # x7 # xs) =
     acumular red (map2 (\<lambda>s x. red (s + x)) r [x0, x1, x2, x3, x4, x5, x6, x7]) xs"
| "acumular red r xs = r"

function pairwise_sum :: "(real \<Rightarrow> real) \<Rightarrow> real list \<Rightarrow> real" where
  "pairwise_sum red a =
     (if length a < 8 then sumar red 0 a
      else if length a \<le> 128 then
        (let m = length a - length a mod 8;
             r = acumular red (take 8 a) (drop 8 (take m a))
         in sumar red
              (red (red (red (r ! 0 + r ! 1) + red (r ! 2 + r ! 3)) +
                    red (red (r ! 4 + r ! 5) + red (r ! 6 + r ! 7))))
              (drop m a))
      else
        (let n2 = length a div 2 - (length a div 2) mod 8
         in red (pairwise_sum red (take n2 a) + pairwise_sum red (drop n2 a))))"
  by pat_completeness auto
termination
  by (relation "measure (\<lambda>(red, a). length a)") (auto simp: Let_def)

declare pairwise_sum.simps [simp del]

definition sum_columna :: "(real \<Rightarrow> real) \<Rightarrow> real list \<Rightarrow> real" where
  "sum_columna red xs = pairwise_sum red xs"

definition kahan_paso :: "(real \<Rightarrow> real) \<Rightarrow> real \<times> real \<Rightarrow> real \<Rightarrow> real \<times> real" where
  "kahan_paso red sc val =
     (let y = red (val - snd sc);
          t = red (fst sc + y)
      in (t, red (red (t - fst sc) - y)))"

definition sum_grupo :: "(real \<Rightarrow> real) \<Rightarrow> real list \<Rightarrow> real" where
  "sum_grupo red xs = fst (foldl (kahan_paso red) (0, 0) xs)"

text \<open>
  The rounding of float64: to the nearest number with a significand of 53 bits, a tie
  going to the even significand. \<open>exponente\<close> finds by bisection the power of two at
  or below a positive number, between the least exponent of a normal number and the
  greatest one; below the normal range the spacing is that of the least exponent.
  Sums beyond the greatest float64 are outside the model.
\<close>

fun exponente :: "nat \<Rightarrow> int \<Rightarrow> int \<Rightarrow> real \<Rightarrow> int" where
  "exponente 0 lo hi x = lo"
| "exponente (Suc n) lo hi x =
     (let mid = (lo + hi + 1) div 2
      in if 2 powi mid \<le> x then exponente n mid hi x else exponente n lo (mid - 1) x)"

definition redondear_par :: "real \<Rightarrow> int" where
  "redondear_par y =
     (let f = \<lfloor>y\<rfloor>; d = y - of_int f
      in if d < 1 / 2 then f else if d > 1 / 2 then f + 1 else if even f then f else f + 1)"

definition redondear :: "real \<Rightarrow> real" where
  "redondear x =
     (if x = 0 then 0
      else let u = 2 powi (exponente 12 (- 1022) 1023 \<bar>x\<bar> - 52)
           in sgn x * (of_int (redondear_par (\<bar>x\<bar> / u)) * u))"

text \<open>
  Sums without rounding error. \<open>S\<close> is a set of numbers closed under addition and
  subtraction, and \<open>red\<close> leaves the members of \<open>S\<close> up to the bound \<open>cota\<close> as they
  are: then a sum of members of \<open>S\<close> whose absolute values add up to at most \<open>cota\<close> is
  exact, in the order of the array library as well as compensated.
\<close>

definition sin_redondeo :: "(real \<Rightarrow> real) \<Rightarrow> real set \<Rightarrow> real \<Rightarrow> bool" where
  "sin_redondeo red S cota =
     (0 \<in> S \<and> (\<forall>x \<in> S. \<forall>y \<in> S. x + y \<in> S \<and> x - y \<in> S) \<and>
      (\<forall>x \<in> S. \<bar>x\<bar> \<le> cota \<longrightarrow> red x = x))"

subsection \<open>Key figures (dashboard.py lines 121-129, tra.py lines 47-53)\<close>

text \<open>
  A figure that can be undefined is a \<open>flotante\<close>: a number or the not-a-number value.
  The mean of a column without rows is not a number; the library returns it without
  raising. A sum skips nothing here, the amounts being present, and is 0 on no rows.
\<close>

datatype flotante = NaN | Valor real

definition mean :: "real list \<Rightarrow> flotante" where
  "mean xs = (if xs = [] then NaN else Valor (sum_list xs / real (length xs)))"

definition mean_bool :: "bool list \<Rightarrow> flotante" where
  "mean_bool bs = mean (map (\<lambda>b. if b then 1 else 0) bs)"

definition por :: "flotante \<Rightarrow> real \<Rightarrow> flotante" where
  "por x k = (case x of NaN \<Rightarrow> NaN | Valor v \<Rightarrow> Valor (v * k))"

text \<open>
  \<^verbatim>\<open>value_counts\<close> counts each value that is not null, the most frequent first;
  \<^verbatim>\<open>groupby(...).size()\<close> counts each key that is not null, in the order of the keys.
\<close>

definition value_counts :: "'a option list \<Rightarrow> ('a \<times> nat) list" where
  "value_counts xs =
     (let vs = dropna xs
      in sort_key (\<lambda>kn. - int (snd kn)) (map (\<lambda>k. (k, count_list vs k)) (unique vs)))"

definition groupby_size :: "'a::linorder option list \<Rightarrow> ('a \<times> nat) list" where
  "groupby_size xs =
     (let vs = dropna xs in map (\<lambda>k. (k, count_list vs k)) (sort (remdups vs)))"

definition ventas_totales :: "(real \<Rightarrow> real) \<Rightarrow> fila list \<Rightarrow> real" where
  "ventas_totales red df = sum_columna red (map col_total df)"

definition clientes_unicos :: "fila list \<Rightarrow> nat" where
  "clientes_unicos df = length (unique (dropna (map col_cliente_id df)))"

definition compras_por_cliente :: "fila list \<Rightarrow> (texto \<times> nat) list" where
  "compras_por_cliente df = value_counts (map col_cliente_id df)"

definition tasa_retencion :: "fila list \<Rightarrow> flotante" where
  "tasa_retencion df = por (mean_bool (map (\<lambda>kn. snd kn > 1) (compras_por_cliente df))) 100"

definition clientes_frecuencia :: "fila_tra list \<Rightarrow> (texto \<times> nat) list" where
  "clientes_frecuencia df = groupby_size (map tra_cliente_id df)"

definition retencion :: "fila_tra list \<Rightarrow> flotante" where
  "retencion df = mean_bool (map (\<lambda>kn. snd kn > 1) (clientes_frecuencia df))"

subsection \<open>Monthly series (dashboard.py lines 122-124 and 165-172, tra.py line 47)\<close>

text \<open>
  Grouping by \<^verbatim>\<open>pd.Grouper(key='fecha', freq='ME')\<close>, like \<^verbatim>\<open>resample('M')\<close>, cuts the
  time from the first to the last timestamp of the table into calendar months and
  aggregates each of them: a month between the two without a row is a bin like the
  others, with sum 0 and count 0. A table without rows has no bin. \<open>por_mes\<close> is the
  list of the bins, each with its rows.
\<close>

definition mes :: "marca \<Rightarrow> nat" where
  "mes m = fst (fst m)"

definition por_mes :: "('r \<Rightarrow> marca) \<Rightarrow> 'r list \<Rightarrow> (nat \<times> 'r list) list" where
  "por_mes col df =
     (if df = [] then []
      else map (\<lambda>m. (m, filter (\<lambda>f. mes (col f) = m) df))
             [Min (set (map (\<lambda>f. mes (col f)) df)) ..< Suc (Max (set (map (\<lambda>f. mes (col f)) df)))])"

definition datos_mensuales :: "fila list \<Rightarrow> (nat \<times> real \<times> nat) list" where
  "datos_mensuales df =
     map (\<lambda>(m, g). (m, sum_list (map col_total g), length g)) (por_mes col_fecha df)"

definition ventas_mensuales :: "fila list \<Rightarrow> flotante" where
  "ventas_mensuales df =
     mean (map (\<lambda>(m, g). sum_list (map col_total g)) (por_mes col_fecha df))"

definition ventas_mensuales_tra :: "fila_tra list \<Rightarrow> (nat \<times> real) list" where
  "ventas_mensuales_tra df =
     map (\<lambda>(m, g). (m, sum_list (map tra_total g))) (por_mes tra_fecha df)"

subsection \<open>Totals by category (dashboard.py line 284)\<close>

text \<open>\<^verbatim>\<open>groupby\<close> leaves out the rows whose key is null and orders the groups by key.\<close>

definition ventas_por_categoria :: "(real \<Rightarrow> real) \<Rightarrow> fila list \<Rightarrow> (texto \<times> real) list" where
  "ventas_por_categoria red df =
     map (\<lambda>k. (k, sum_grupo red (map col_total (filter (\<lambda>f. col_categoria f = Some k) df))))
       (sort (remdups (dropna (map col_categoria df))))"

subsection \<open>Rollup by location (dashboard.py lines 209-256)\<close>

text \<open>
  The customers of the filtered rows, each with the sales and the number of
  transactions of its \<^verbatim>\<open>cliente_id\<close> (a left join: null when the customer has no
  group), are grouped by latitude, longitude and city. Within a group:
  \<^verbatim>\<open>count\<close> counts the identifiers that are not null, \<^verbatim>\<open>sum\<close> skips the nulls, and the
  segment is \<^verbatim>\<open>x.mode()[0] if not x.mode().empty else 'N/A'\<close>, where \<^verbatim>\<open>mode\<close> returns
  the most frequent values among those that are not null, sorted.
\<close>

definition df_clientes_filtrado :: "cliente list \<Rightarrow> fila list \<Rightarrow> cliente list" where
  "df_clientes_filtrado df_clientes df =
     filter (\<lambda>c. c_cliente_id c \<in> set (unique (map col_cliente_id df))) df_clientes"

definition ventas_por_ubicacion :: "fila list \<Rightarrow> (texto \<times> real \<times> nat) list" where
  "ventas_por_ubicacion df =
     map (\<lambda>k. let g = filter (\<lambda>f. col_cliente_id f = Some k) df
               in (k, sum_list (map col_total g), length g))
       (sort (remdups (dropna (map col_cliente_id df))))"

type_synonym fila_geo = "cliente \<times> (texto \<times> real \<times> nat) option"

definition df_clientes_geo :: "cliente list \<Rightarrow> fila list \<Rightarrow> fila_geo list" where
  "df_clientes_geo df_clientes df =
     merge_left c_cliente_id (\<lambda>v. Some (fst v))
       (df_clientes_filtrado df_clientes df) (ventas_por_ubicacion df)"

definition mode :: "'a::linorder option list \<Rightarrow> 'a list" where
  "mode xs =
     (let vs = dropna xs
      in filter (\<lambda>k. \<forall>v \<in> set vs. count_list vs v \<le> count_list vs k) (sort (remdups vs)))"

definition segmento_principal_de :: "texto option list \<Rightarrow> texto" where
  "segmento_principal_de x = (case mode x of [] \<Rightarrow> texto_de ''N/A'' | m # ms \<Rightarrow> m)"

record ubicacion =
  u_latitud :: real
  u_longitud :: real
  u_ciudad :: texto
  conteo_clientes :: nat
  u_ventas_totales :: real
  num_transacciones :: nat
  segmento_principal :: texto

definition clave_ubicacion :: "fila_geo \<Rightarrow> (real \<times> real \<times> texto) option" where
  "clave_ubicacion g =
     (case (latitud (fst g), longitud (fst g), ciudad (fst g)) of
        (Some la, Some lo, Some ci) \<Rightarrow> Some (la, lo, ci)
      | _ \<Rightarrow> None)"

definition grupo_ubicacion :: "fila_geo list \<Rightarrow> real \<times> real \<times> texto \<Rightarrow> fila_geo list" where
  "grupo_ubicacion geo k = filter (\<lambda>g. clave_ubicacion g = Some k) geo"

definition coordenadas_unicas :: "fila_geo list \<Rightarrow> ubicacion list" where
  "coordenadas_unicas geo =
     map (\<lambda>k. let g = grupo_ubicacion geo k
               in \<lparr>u_latitud = fst k, u_longitud = fst (snd k), u_ciudad = snd (snd k),
                   conteo_clientes = length (dropna (map (\<lambda>r. c_cliente_id (fst r)) g)),
                   u_ventas_totales = sum_list (dropna (map (\<lambda>r. map_option (\<lambda>v. fst (snd v)) (snd r)) g)),
                   num_transacciones = sum_list (dropna (map (\<lambda>r. map_option (\<lambda>v. snd (snd v)) (snd r)) g)),
                   segmento_principal = segmento_principal_de (map (\<lambda>r. segmento (fst r)) g)\<rparr>)
       (sort (remdups (dropna (map clave_ubicacion geo))))"

text \<open>
  The average ticket of a row (line 256). A division by zero is an error of Python's
  numbers (the numbers of the library give a warning and no finite quotient instead);
  the model makes it an error, and the condition in front of the division is what
  keeps the divisor positive.
\<close>

definition dividir :: "real \<Rightarrow> real \<Rightarrow> py_error + real" where
  "dividir a b = (if b = 0 then Inl ZeroDivisionError else Inr (a / b))"

definition avg_venta :: "ubicacion \<Rightarrow> py_error + real" where
  "avg_venta row =
     (if num_transacciones row > 0
      then dividir (u_ventas_totales row) (real (num_transacciones row))
      else Inr 0)"

subsection \<open>Example tables\<close>

text \<open>
  For the examples: an excerpt of the character database (the ASCII letters and the
  Greek letters; every other code point is left as it is), and a reading of cells as
  numbers that reads the unsigned decimal integers.
\<close>

definition ucd_extracto :: ucd where
  "ucd_extracto =
     \<lparr>lower_de = (\<lambda>c. if (65 \<le> c \<and> c \<le> 90) \<or> (913 \<le> c \<and> c \<le> 939 \<and> c \<noteq> 930)
                     then [c + 32] else [c]),
      title_de = (\<lambda>c. if (97 \<le> c \<and> c \<le> 122) \<or> (945 \<le> c \<and> c \<le> 971 \<and> c \<noteq> 962)
                     then [c - 32] else if c = 962 then [931] else [c]),
      cased = (\<lambda>c. (65 \<le> c \<and> c \<le> 90) \<or> (97 \<le> c \<and> c \<le> 122) \<or>
                    (913 \<le> c \<and> c \<le> 939 \<and> c \<noteq> 930) \<or> (945 \<le> c \<and> c \<le> 971)),
      case_ignorable = (\<lambda>c. c = 39 \<or> c = 46 \<or> c = 58 \<or> c = 94 \<or> c = 96)\<rparr>"

definition leer_entero :: "texto \<Rightarrow> real option" where
  "leer_entero s =
     (if s \<noteq> [] \<and> list_all (\<lambda>c. 48 \<le> c \<and> c \<le> 57) s
      then Some (of_nat (foldl (\<lambda>a c. 10 * a + (c - 48)) 0 s)) else None)"

definition tx1 :: transaccion where
  "tx1 = \<lparr>transaccion_id = 1, fecha = ((24288, 5), 0), t_cliente_id = Some (texto_de ''C1''),
          t_producto_id = Some (texto_de ''P1''), cantidad = 1, total = 1200000,
          metodo_pago = Some (texto_de ''efectivo'')\<rparr>"

definition tx2 :: transaccion where
  "tx2 = \<lparr>transaccion_id = 2, fecha = ((24290, 9), 37800), t_cliente_id = Some (texto_de ''C1''),
          t_producto_id = Some (texto_de ''P9''), cantidad = 2, total = 300,
          metodo_pago = Some (texto_de ''tarjeta'')\<rparr>"

definition tx3 :: transaccion where
  "tx3 = \<lparr>transaccion_id = 3, fecha = ((24290, 9), 37800), t_cliente_id = Some (texto_de ''C1''),
          t_producto_id = Some (texto_de ''P1''), cantidad = 2, total = 300,
          metodo_pago = Some (texto_de ''Tarjeta'')\<rparr>"

definition pr1 :: producto where
  "pr1 = \<lparr>p_producto_id = Some (texto_de ''P1''), p_nombre = Some (texto_de ''Radio''),
          categoria = Some (texto_de '' electronics ''), stock = Some 40\<rparr>"

definition cl1 :: cliente where
  "cl1 = \<lparr>c_cliente_id = Some (texto_de ''C1''), c_nombre = Some (texto_de ''Ana''),
          apellido = Some (texto_de ''Paz''), email = None, ciudad = Some (texto_de ''Tunja''),
          latitud = Some 5, longitud = Some (-73), segmento = Some (texto_de ''PREMIUM'')\<rparr>"

text \<open>A transaction and a product whose identifier is written with digits only.\<close>

definition tx4 :: transaccion where
  "tx4 = tx1\<lparr>transaccion_id := 4, t_producto_id := Some (texto_de ''101'')\<rparr>"

definition pr4 :: producto where
  "pr4 = pr1\<lparr>p_producto_id := Some (texto_de ''101'')\<rparr>"

definition fila1 :: fila where
  "fila1 = ((tx1, Some pr1), Some cl1)"

definition fila3 :: fila where
  "fila3 = ((tx3, Some pr1), Some cl1)"

text \<open>The two rows after the normalisation of lines 48-50.\<close>

definition fila1n :: fila where
  "fila1n = ((tx1\<lparr>metodo_pago := Some (texto_de ''Efectivo'')\<rparr>,
              Some (pr1\<lparr>categoria := Some (texto_de ''Electronics'')\<rparr>)),
             Some (cl1\<lparr>segmento := Some (texto_de ''Premium'')\<rparr>))"

definition fila3n :: fila where
  "fila3n = ((tx3\<lparr>metodo_pago := Some (texto_de ''Tarjeta'')\<rparr>,
              Some (pr1\<lparr>categoria := Some (texto_de ''Electronics'')\<rparr>)),
             Some (cl1\<lparr>segmento := Some (texto_de ''Premium'')\<rparr>))"

definition sel1 :: seleccion where
  "sel1 = \<lparr>fechas_seleccionadas = ((24288, 5), (24290, 9)),
            categorias_seleccionadas = [Some (texto_de ''Electronics'')],
            segmentos_seleccionados = [Some (texto_de ''Premium'')],
            metodo_pago_seleccionado = [texto_de ''Efectivo'', texto_de ''Tarjeta'']\<rparr>"

definition sel0 :: seleccion where
  "sel0 = sel1\<lparr>categorias_seleccionadas := []\<rparr>"

text \<open>
  The float64 numbers nearest to 0.1, 0.2 and 0.3, and a normalised table of three
  transactions with these amounts, the first of another category than the two others.
\<close>

definition d01 :: real where
  "d01 = 3602879701896397 / 36028797018963968"

definition d02 :: real where
  "d02 = 3602879701896397 / 18014398509481984"

definition d03 :: real where
  "d03 = 5404319552844595 / 18014398509481984"

definition fila_d :: "nat \<Rightarrow> real \<Rightarrow> string \<Rightarrow> fila" where
  "fila_d i x cat =
     ((tx1\<lparr>transaccion_id := i, total := x, metodo_pago := Some (texto_de ''Efectivo'')\<rparr>,
       Some (pr1\<lparr>categoria := Some (texto_de cat)\<rparr>)),
      Some (cl1\<lparr>segmento := Some (texto_de ''Premium'')\<rparr>))"

definition vista_d :: "fila list" where
  "vista_d = [fila_d 5 d01 ''Books'', fila_d 6 d02 ''Electronics'', fila_d 7 d03 ''Electronics'']"

definition sel_d :: seleccion where
  "sel_d = \<lparr>fechas_seleccionadas = ((24288, 5), (24288, 5)),
             categorias_seleccionadas = [Some (texto_de ''Books''), Some (texto_de ''Electronics'')],
             segmentos_seleccionados = [Some (texto_de ''Premium'')],
             metodo_pago_seleccionado = [texto_de ''Efectivo'']\<rparr>"

section \<open>Properties\<close>

lemmas columnas = col_fecha_def col_total_def col_cliente_id_def col_metodo_pago_def
  col_categoria_def col_segmento_def

lemmas ejemplos = fila1_def fila3_def fila1n_def fila3n_def tx1_def tx2_def tx3_def tx4_def
  pr1_def pr4_def cl1_def sel1_def sel0_def texto_de_def

lemmas texto_defs = normalizar_texto_def capwords_def capitalize_def split_def lower_def
  strip_def es_espacio_def sigma_final_def ucd_extracto_def texto_de_def

subsection \<open>The colour ladder\<close>

text \<open>
  C1. The bucketing function returns the critical tier (red, \<^verbatim>\<open>#ff0000\<close>) exactly when
  the total exceeds 1,000,000; the high tier (orange, \<^verbatim>\<open>#ff6600\<close>) exactly when the
  total is above 500,000 and at most 1,000,000; the medium tier (yellow,
  \<^verbatim>\<open>#ffcc00\<close>) exactly when it is above 100,000 and at most 500,000; and the low tier
  (green, \<^verbatim>\<open>#33cc33\<close>) exactly when it is at most 100,000. Every comparison is
  strict, so 1,000,000 is high and 100,000 is low.
\<close>

theorem obtener_color_tiers:
  "(obtener_color v = ''#ff0000'') = (v > 1000000) \<and>
   (obtener_color v = ''#ff6600'') = (1000000 \<ge> v \<and> v > 500000) \<and>
   (obtener_color v = ''#ffcc00'') = (500000 \<ge> v \<and> v > 100000) \<and>
   (obtener_color v = ''#33cc33'') = (100000 \<ge> v) \<and>
   obtener_color 1000001 = ''#ff0000'' \<and>
   obtener_color 1000000 = ''#ff6600'' \<and>
   obtener_color 100001 = ''#ffcc00'' \<and>
   obtener_color 100000 = ''#33cc33''"
  by (simp add: obtener_color_def)

subsection \<open>Normalisation of free text\<close>

















subsection \<open>The joiners\<close>

lemma find_SomeD: "find P xs = Some x \<Longrightarrow> P x \<and> x \<in> set xs"
  by (induction xs) (auto split: if_splits)

lemma filter_clave_unica:
  "distinct (map kr der) \<Longrightarrow>
   filter (\<lambda>b. kr b = k) der = (case find (\<lambda>b. kr b = k) der of None \<Rightarrow> [] | Some b \<Rightarrow> [b])"
proof (induction der)
  case Nil
  then show ?case by simp
next
  case (Cons b der)
  show ?case
  proof (cases "kr b = k")
    case True
    with Cons.prems have "filter (\<lambda>b. kr b = k) der = []"
      by (auto simp: filter_empty_conv) (metis imageI)
    with True show ?thesis by simp
  next
    case False
    with Cons show ?thesis by simp
  qed
qed

lemma merge_left_clave_unica:
  assumes "distinct (map kr der)"
  shows "merge_left kl kr izq der = map (\<lambda>a. (a, find (\<lambda>b. kr b = kl a) der)) izq"
proof -
  have "(case filter (\<lambda>b. kr b = kl a) der of [] \<Rightarrow> [(a, None)] | bs \<Rightarrow> map (\<lambda>b. (a, Some b)) bs)
        = [(a, find (\<lambda>b. kr b = kl a) der)]" for a
    by (simp add: filter_clave_unica [OF assms] split: option.split)
  then show ?thesis
    by (simp add: merge_left_def)
qed

lemma clave_de_texto: "(clave_de num False a = clave_de num False b) = (a = b)"
  by (cases a; cases b) (simp_all add: clave_de_def)

lemma distinct_clave_de_texto:
  "distinct (map p_producto_id ps) \<Longrightarrow>
   distinct (map (\<lambda>p. clave_de num False (p_producto_id p)) ps)"
  by (induction ps) (auto simp: clave_de_texto)

lemma load_data_filas:
  assumes p: "distinct (map p_producto_id ps)" and c: "distinct (map c_cliente_id cs)"
  shows "load_data num ts ps cs =
           (if ts \<noteq> [] \<and> columna_numerica num (map p_producto_id ps) then Inl ValueError
            else Inr (map (\<lambda>t. ((t, find (\<lambda>p. p_producto_id p = t_producto_id t) ps),
                                find (\<lambda>c. c_cliente_id c = t_cliente_id t) cs)) ts, cs))"
proof (cases "columna_numerica num (map p_producto_id ps)")
  case True
  then have "ps \<noteq> []"
    by (auto simp: columna_numerica_def)
  with True show ?thesis
    by (cases ts) (simp_all add: load_data_def claves_incompatibles_def merge_left_def)
next
  case False
  then show ?thesis
    by (simp add: load_data_def claves_incompatibles_def
        merge_left_clave_unica [OF distinct_clave_de_texto [OF p]]
        merge_left_clave_unica [OF c] clave_de_texto comp_def)
qed

lemmas carga = load_data_def cargar_datos_def claves_incompatibles_def columna_numerica_def
  clave_de_def merge_left_def merge_inner_def leer_entero_def

text \<open>
  C2. With \<^verbatim>\<open>producto_id\<close> unique among the products and \<^verbatim>\<open>cliente_id\<close> unique
  among the customers, \<^verbatim>\<open>load_data\<close> of dashboard.py (two left joins) either raises
  ValueError at its first join, which it does exactly when there is a transaction and
  the \<^verbatim>\<open>producto_id\<close> of the products were read as numbers (every product identifier
  written with digits only, say), or returns exactly one row per transaction, in the
  order of the transactions: the transaction with the product of its \<^verbatim>\<open>producto_id\<close>
  and the customer of its \<^verbatim>\<open>cliente_id\<close>, each null when no row has that key. One
  transaction and one product with the identifier \<^verbatim>\<open>101\<close> make it raise. And
  \<^verbatim>\<open>cargar_datos\<close> of tra.py, which joins with the default inner joins, returns one
  row for two transactions of which the second names a product that is not in the
  catalogue: the second transaction is dropped.
\<close>

theorem joiner_filas:
  "(distinct (map p_producto_id ps) \<and> distinct (map c_cliente_id cs) \<longrightarrow>
      load_data num ts ps cs =
        (if ts \<noteq> [] \<and> columna_numerica num (map p_producto_id ps) then Inl ValueError
         else Inr (map (\<lambda>t. ((t, find (\<lambda>p. p_producto_id p = t_producto_id t) ps),
                             find (\<lambda>c. c_cliente_id c = t_cliente_id t) cs)) ts, cs))) \<and>
   load_data leer_entero [tx4] [pr4] [cl1] = Inl ValueError \<and>
   cargar_datos leer_entero [cl1] [pr1] [tx1, tx2] = Inr [((tx1, cl1), pr1)]"
proof -
  have "load_data leer_entero [tx4] [pr4] [cl1] = Inl ValueError"
    by (simp add: carga ejemplos)
  moreover have "cargar_datos leer_entero [cl1] [pr1] [tx1, tx2] = Inr [((tx1, cl1), pr1)]"
    by (simp add: carga ejemplos)
  ultimately show ?thesis
    by (simp add: load_data_filas)
qed

theorem joiner_filas_witness:
  "distinct (map p_producto_id [pr1]) \<and> distinct (map c_cliente_id [cl1]) \<and>
   load_data leer_entero [tx1, tx2] [pr1] [cl1] =
     Inr ([((tx1, Some pr1), Some cl1), ((tx2, None), Some cl1)], [cl1])"
  using joiner_filas [where ps = "[pr1]" and cs = "[cl1]" and num = leer_entero
      and ts = "[tx1, tx2]"]
  by (simp add: columna_numerica_def leer_entero_def ejemplos)

text \<open>
  tra.py infers the type of every key: a transaction with the product identifier
  \<^verbatim>\<open>007\<close> is joined with the product \<^verbatim>\<open>7\<close>.
\<close>

lemma cargar_datos_ceros:
  "cargar_datos leer_entero [cl1]
     [pr1\<lparr>p_producto_id := Some (texto_de ''7'')\<rparr>]
     [tx1\<lparr>t_producto_id := Some (texto_de ''007'')\<rparr>] =
   Inr [((tx1\<lparr>t_producto_id := Some (texto_de ''007'')\<rparr>, cl1),
         pr1\<lparr>p_producto_id := Some (texto_de ''7'')\<rparr>)]"
  by (simp add: carga ejemplos)

subsection \<open>Normalisation of the table\<close>

lemma apply_capwords_Inr:
  "apply_capwords u vs = Inr ss \<Longrightarrow>
   None \<notin> set vs \<and> ss = map (\<lambda>v. normalizar_texto u (the v)) vs"
proof (induction vs arbitrary: ss)
  case Nil
  then show ?case by simp
next
  case (Cons v vs)
  then show ?case
    by (cases v) (auto split: sum.splits)
qed

lemma normalizar_columna_Inr:
  assumes "normalizar_columna u leer poner df = Inr df'"
  shows "(\<forall>f \<in> set df. leer f \<noteq> None) \<and>
         df' = map (\<lambda>f. poner (normalizar_texto u (the (leer f))) f) df"
proof -
  from assms obtain vs where vs: "apply_capwords u (map leer df) = Inr vs"
    and df': "df' = map2 poner vs df"
    by (auto simp: normalizar_columna_def split: sum.splits)
  from apply_capwords_Inr [OF vs]
  have 1: "None \<notin> set (map leer df)"
    and 2: "vs = map (\<lambda>v. normalizar_texto u (the v)) (map leer df)"
    by simp_all
  have "map2 poner (map (\<lambda>v. normalizar_texto u (the v)) (map leer df)) df =
        map (\<lambda>f. poner (normalizar_texto u (the (leer f))) f) df"
    by (induction df) simp_all
  with 1 2 df' show ?thesis by force
qed

lemma normalizar_sin_nulos:
  assumes "normalizar u df0 = Inr df" and "f \<in> set df"
  shows "col_categoria f \<noteq> None \<and> col_segmento f \<noteq> None \<and> col_metodo_pago f \<noteq> None"
proof -
  from assms(1) obtain df1 df2 where
    1: "normalizar_columna u col_categoria poner_categoria df0 = Inr df1" and
    2: "normalizar_columna u col_segmento poner_segmento df1 = Inr df2" and
    3: "normalizar_columna u col_metodo_pago poner_metodo_pago df2 = Inr df"
    by (auto simp: normalizar_def split: sum.splits)
  note n1 = normalizar_columna_Inr [OF 1] and n2 = normalizar_columna_Inr [OF 2]
    and n3 = normalizar_columna_Inr [OF 3]
  from assms(2) n3 obtain f2 where f2: "f2 \<in> set df2"
    and f: "f = poner_metodo_pago (normalizar_texto u (the (col_metodo_pago f2))) f2"
    by auto
  from f2 n2 obtain f1 where f1: "f1 \<in> set df1"
    and f2': "f2 = poner_segmento (normalizar_texto u (the (col_segmento f1))) f1"
    by auto
  from f1 n1 obtain f0 where f0: "f0 \<in> set df0"
    and f1': "f1 = poner_categoria (normalizar_texto u (the (col_categoria f0))) f0"
    by auto
  from f0 n1 have c0: "col_categoria f0 \<noteq> None" by simp
  from f1 n2 have s1: "col_segmento f1 \<noteq> None" by simp
  from c0 have "col_categoria f1 \<noteq> None"
    by (auto simp: f1' col_categoria_def poner_categoria_def split: option.splits)
  then have c2: "col_categoria f2 \<noteq> None"
    by (simp add: f2' col_categoria_def poner_segmento_def)
  from s1 have s2: "col_segmento f2 \<noteq> None"
    by (auto simp: f2' col_segmento_def poner_segmento_def split: option.splits)
  from c2 s2 show ?thesis
    by (simp add: f col_categoria_def col_segmento_def col_metodo_pago_def
        poner_metodo_pago_def)
qed

subsection \<open>The filters\<close>

lemma set_unique [simp]: "set (unique xs) = set xs"
  by (simp add: unique_def)

lemma distinct_unique [simp]: "distinct (unique xs)"
  by (simp add: unique_def)

lemma set_dropna: "set (dropna xs) = {x. Some x \<in> set xs}"
  by (induction xs) (auto simp: dropna_def split: option.splits)

lemma sorted_py_sin_nulos:
  "None \<notin> set xs \<Longrightarrow> sorted_py xs = Inr (sort xs)"
  by (simp add: sorted_py_def)

lemma fst_mono_lex: "a \<le> b \<Longrightarrow> fst a \<le> fst b"
  for a b :: "'a::order \<times> 'b::order"
  by (auto simp: less_eq_prod_def)

lemma fecha_entre:
  assumes "f \<in> set df"
  shows "fst (Min (set (map col_fecha df))) \<le> fst (col_fecha f) \<and>
         fst (col_fecha f) \<le> fst (Max (set (map col_fecha df)))"
proof -
  from assms have "Min (set (map col_fecha df)) \<le> col_fecha f"
    and "col_fecha f \<le> Max (set (map col_fecha df))"
    by simp_all
  then show ?thesis
    by (simp add: fst_mono_lex)
qed

lemma filtro_completo:
  assumes "normalizar u df0 = Inr df" and "df \<noteq> []"
  shows "\<exists>sel. por_defecto df = Inr sel \<and> df_filtrado sel df = df"
proof -
  have nn: "\<And>f. f \<in> set df \<Longrightarrow>
      col_categoria f \<noteq> None \<and> col_segmento f \<noteq> None \<and> col_metodo_pago f \<noteq> None"
    using normalizar_sin_nulos [OF assms(1)] by blast
  have "None \<notin> set (unique (map col_categoria df))"
    and "None \<notin> set (unique (map col_segmento df))"
    using nn by (force simp: image_iff)+
  then have cats: "categorias_disponibles df = Inr (sort (unique (map col_categoria df)))"
    and segs: "segmentos df = Inr (sort (unique (map col_segmento df)))"
    by (simp_all add: categorias_disponibles_def segmentos_def sorted_py_sin_nulos)
  define sel where "sel =
    \<lparr>fechas_seleccionadas =
        (fst (Min (set (map col_fecha df))), fst (Max (set (map col_fecha df)))),
      categorias_seleccionadas = sort (unique (map col_categoria df)),
      segmentos_seleccionados = sort (unique (map col_segmento df)),
      metodo_pago_seleccionado = metodos_disponibles df\<rparr>"
  have pd: "por_defecto df = Inr sel"
    using assms(2) by (simp add: por_defecto_def rango_fechas_def cats segs sel_def)
  have "condicion_filtro sel f" if "f \<in> set df" for f
  proof -
    from nn [OF that] obtain m where m: "col_metodo_pago f = Some m" by auto
    with that have "m \<in> set (metodos_disponibles df)"
      by (force simp: metodos_disponibles_def set_dropna)
    with that m fecha_entre [OF that] show ?thesis
      by (simp add: condicion_filtro_def sel_def)
  qed
  then have "df_filtrado sel df = df"
    by (simp add: df_filtrado_def)
  with pd show ?thesis by blast
qed

lemma sorted_py_Inr: "sorted_py xs = Inr ys \<Longrightarrow> set ys = set xs"
  by (auto simp: sorted_py_def split: if_splits)

text \<open>
  What the default selection keeps of any table on which the sidebar can be built:
  every row but those without a payment method, which \<^verbatim>\<open>dropna\<close> takes out of the
  options. A normalised table has no such row.
\<close>

lemma filtro_por_defecto:
  assumes "por_defecto df = Inr sel"
  shows "df_filtrado sel df = filter (\<lambda>f. col_metodo_pago f \<noteq> None) df"
proof -
  from assms obtain fechas cats segs where
    r: "rango_fechas df = Inr fechas" and
    c: "categorias_disponibles df = Inr cats" and
    s: "segmentos df = Inr segs" and
    sel: "sel = \<lparr>fechas_seleccionadas = fechas, categorias_seleccionadas = cats,
                  segmentos_seleccionados = segs,
                  metodo_pago_seleccionado = metodos_disponibles df\<rparr>"
    by (cases "rango_fechas df"; cases "categorias_disponibles df"; cases "segmentos df")
      (simp_all add: por_defecto_def)
  from r have f: "fechas = (fst (Min (set (map col_fecha df))), fst (Max (set (map col_fecha df))))"
    by (cases "df = []") (simp_all add: rango_fechas_def)
  have cs: "set cats = set (map col_categoria df)"
    using c sorted_py_Inr [of "unique (map col_categoria df)" cats]
    by (simp add: categorias_disponibles_def)
  have ss: "set segs = set (map col_segmento df)"
    using s sorted_py_Inr [of "unique (map col_segmento df)" segs]
    by (simp add: segmentos_def)
  have "condicion_filtro sel g = (col_metodo_pago g \<noteq> None)" if "g \<in> set df" for g
  proof -
    have "(col_metodo_pago g \<in> set (map Some (metodos_disponibles df))) =
          (col_metodo_pago g \<noteq> None)"
    proof (cases "col_metodo_pago g")
      case None
      then show ?thesis by auto
    next
      case (Some m)
      with that have "Some m \<in> set (map col_metodo_pago df)"
        by (metis image_eqI set_map)
      then have "m \<in> set (metodos_disponibles df)"
        by (simp add: metodos_disponibles_def set_dropna)
      with Some show ?thesis by simp
    qed
    with that fecha_entre [OF that] show ?thesis
      by (simp add: condicion_filtro_def sel f cs ss)
  qed
  then show ?thesis
    unfolding df_filtrado_def by (intro filter_cong) simp_all
qed

lemma medianoche_antes: "(fst m, 0) \<le> m"
  for m :: marca
  by (auto simp: less_eq_prod_def less_le)

lemma medianoche_despues: "snd a = 0 \<Longrightarrow> a \<le> m \<Longrightarrow> a \<le> (fst m, 0)"
  for a m :: marca
  by (auto simp: less_eq_prod_def less_le)

lemma filtro_completo_tra:
  assumes "\<forall>f \<in> set df. snd (tra_fecha f) = 0" and "df \<noteq> []"
  shows "\<exists>sel. por_defecto_tra df = Inr sel \<and> df_filtrado_tra sel df = df"
proof -
  let ?lo = "Min (set (map tra_fecha df))" and ?hi = "Max (set (map tra_fecha df))"
  have "to_datetime (fst ?lo) \<le> tra_fecha f \<and> tra_fecha f \<le> to_datetime (fst ?hi) \<and>
        tra_categoria f \<in> set (unique (map tra_categoria df))" if "f \<in> set df" for f
  proof -
    from that have "?lo \<le> tra_fecha f" and "tra_fecha f \<le> ?hi"
      by simp_all
    moreover from that assms(1) have "snd (tra_fecha f) = 0" by blast
    ultimately have "(fst ?lo, 0) \<le> tra_fecha f" and "tra_fecha f \<le> (fst ?hi, 0)"
      using medianoche_antes [of ?lo] medianoche_despues [of "tra_fecha f" ?hi]
      by (auto intro: order_trans)
    moreover from that have "tra_categoria f \<in> set (unique (map tra_categoria df))"
      by simp
    ultimately show ?thesis
      by (simp add: to_datetime_def)
  qed
  then have "df_filtrado_tra (date_input (?lo, ?hi), unique (map tra_categoria df)) df = df"
    by (simp add: df_filtrado_tra_def date_input_def)
  with assms(2) show ?thesis
    by (simp add: por_defecto_tra_def)
qed

text \<open>
  C3. tra.py, with its widgets at their defaults, on a table whose single transaction
  is dated 9 March 2024 at 10:30: the date widget holds the range from 9 March to 9
  March, the filter keeps the rows with a timestamp up to 9 March at midnight, and
  the row is dropped. (dashboard.py compares calendar dates and keeps every row of a
  normalised table, \<open>filtro_completo\<close>; tra.py keeps every row when all timestamps
  are at midnight, \<open>filtro_completo_tra\<close>.)
\<close>

theorem df_filtrado_tra_pierde:
  "por_defecto_tra [((tx3, cl1), pr1)] =
     Inr (((24290, 9), (24290, 9)), [Some (texto_de '' electronics '')]) \<and>
   df_filtrado_tra (((24290, 9), (24290, 9)), [Some (texto_de '' electronics '')]) [((tx3, cl1), pr1)] = []"
  by (simp add: por_defecto_tra_def df_filtrado_tra_def date_input_def to_datetime_def
      tra_fecha_def tra_categoria_def unique_def tx3_def pr1_def less_eq_prod_def)

text \<open>
  C6. Whatever the table and the dates, a selection in which the categories, the
  segments or the payment methods are empty selects no row.
\<close>

theorem seleccion_vacia:
  "categorias_seleccionadas sel = [] \<or> segmentos_seleccionados sel = [] \<or>
   metodo_pago_seleccionado sel = [] \<Longrightarrow> df_filtrado sel df = []"
  by (auto simp: df_filtrado_def condicion_filtro_def filter_empty_conv)

theorem seleccion_vacia_witness:
  "categorias_seleccionadas sel0 = [] \<and> condicion_filtro sel1 fila1n \<and>
   df_filtrado sel1 [fila1n, fila3n] = [fila1n, fila3n] \<and>
   df_filtrado sel0 [fila1n, fila3n] = []"
proof -
  have 1: "categorias_seleccionadas sel0 = []"
    by (simp add: sel0_def)
  have 2: "condicion_filtro sel1 fila1n" and 3: "condicion_filtro sel1 fila3n"
    by (simp_all add: condicion_filtro_def columnas ejemplos)
  from 1 2 3 seleccion_vacia [of sel0 "[fila1n, fila3n]"] show ?thesis
    by (simp add: df_filtrado_def)
qed

lemma normalizar_ejemplo:
  "normalizar ucd_extracto [fila1, fila3] = Inr [fila1n, fila3n]"
proof -
  have "normalizar_texto ucd_extracto (texto_de '' electronics '') = texto_de ''Electronics''"
    and "normalizar_texto ucd_extracto (texto_de ''PREMIUM'') = texto_de ''Premium''"
    and "normalizar_texto ucd_extracto (texto_de ''efectivo'') = texto_de ''Efectivo''"
    and "normalizar_texto ucd_extracto (texto_de ''Tarjeta'') = texto_de ''Tarjeta''"
    by (simp_all add: texto_defs)
  then show ?thesis
    by (simp add: normalizar_def normalizar_columna_def poner_categoria_def
        poner_segmento_def poner_metodo_pago_def columnas ejemplos del: texto_de_def)
qed

lemma normalizar_sin_producto:
  "normalizar u [((tx2, None), Some cl1)] = Inl AttributeError"
  by (simp add: normalizar_def normalizar_columna_def columnas)

lemma filtro_completo_ejemplo:
  "por_defecto [fila3n] = Inr (sel1\<lparr>fechas_seleccionadas := ((24290, 9), (24290, 9)),
                                  metodo_pago_seleccionado := [texto_de ''Tarjeta'']\<rparr>) \<and>
   df_filtrado (sel1\<lparr>fechas_seleccionadas := ((24290, 9), (24290, 9)),
                     metodo_pago_seleccionado := [texto_de ''Tarjeta'']\<rparr>) [fila3n] = [fila3n]"
  by (simp add: por_defecto_def rango_fechas_def categorias_disponibles_def segmentos_def
      metodos_disponibles_def sorted_py_def unique_def dropna_def df_filtrado_def
      condicion_filtro_def columnas ejemplos)

subsection \<open>Key figures on a view without customers\<close>

lemma sum_columna_corta:
  "length xs < 8 \<Longrightarrow> sum_columna red xs = foldl (\<lambda>s x. red (s + x)) 0 xs"
  by (simp add: sum_columna_def pairwise_sum.simps sumar_def)

lemma count_list_dropna: "count_list (dropna xs) v = count_list xs (Some v)"
  by (induction xs) (auto simp: dropna_def split: option.splits)

lemma dropna_Nil_iff: "(dropna xs = []) = (\<forall>x \<in> set xs. x = None)"
  by (induction xs) (auto simp: dropna_def split: option.splits)

lemma unique_Nil_iff [simp]: "(unique xs = []) = (xs = [])"
  by (simp add: unique_def)

lemma mean_bool_rango:
  "bs \<noteq> [] \<Longrightarrow> \<exists>x. mean_bool bs = Valor x \<and> 0 \<le> x \<and> x \<le> 1"
proof -
  assume ne: "bs \<noteq> []"
  have 0: "0 \<le> sum_list (map (\<lambda>b. if b then 1 else 0 :: real) bs)"
    by (induction bs) auto
  have 1: "sum_list (map (\<lambda>b. if b then 1 else 0 :: real) bs) \<le> real (length bs)"
    by (induction bs) auto
  from ne have "0 < real (length bs)" by simp
  with 0 1 ne show ?thesis
    by (simp add: mean_bool_def mean_def)
qed

lemma sort_key_Nil_iff: "(sort_key f xs = []) = (xs = [])"
  using length_sort [of f xs] by (cases xs) auto

lemma compras_Nil_iff:
  "(compras_por_cliente df = []) = (dropna (map col_cliente_id df) = [])"
  by (simp add: compras_por_cliente_def value_counts_def Let_def sort_key_Nil_iff)

lemma frecuencia_Nil_iff:
  "(clientes_frecuencia df = []) = (dropna (map tra_cliente_id df) = [])"
  by (simp add: clientes_frecuencia_def groupby_size_def Let_def sort_key_Nil_iff)

text \<open>
  C4 (amended). When the filtered view has no customers, the retention rate of
  dashboard.py and that of tra.py are the not-a-number value: the mean of no values,
  returned without raising, and not 0. The retention rate of dashboard.py is not a
  number exactly when no row of the view has a customer, and otherwise a percentage
  between 0 and 100; likewise the retention rate of tra.py is not a number exactly
  when no row has a customer, and otherwise a fraction between 0 and 1. On the empty
  view the total sales are 0, the number of distinct customers is 0, the monthly
  series has no row and the monthly average is not a number.
\<close>

theorem retencion_sin_clientes:
  "tasa_retencion [] = NaN \<and> retencion [] = NaN \<and>
   ventas_totales red [] = 0 \<and> clientes_unicos [] = 0 \<and>
   ventas_mensuales [] = NaN \<and> datos_mensuales [] = [] \<and>
   (tasa_retencion df = NaN) = (dropna (map col_cliente_id df) = []) \<and>
   (\<forall>x. tasa_retencion df = Valor x \<longrightarrow> 0 \<le> x \<and> x \<le> 100) \<and>
   (retencion dt = NaN) = (dropna (map tra_cliente_id dt) = []) \<and>
   (\<forall>x. retencion dt = Valor x \<longrightarrow> 0 \<le> x \<and> x \<le> 1)"
proof -
  have vacio: "tasa_retencion [] = NaN \<and> retencion [] = NaN \<and>
      ventas_totales red [] = 0 \<and> clientes_unicos [] = 0 \<and>
      ventas_mensuales [] = NaN \<and> datos_mensuales [] = []"
    by (simp add: tasa_retencion_def retencion_def ventas_totales_def sum_columna_corta
        clientes_unicos_def
        ventas_mensuales_def datos_mensuales_def compras_por_cliente_def
        clientes_frecuencia_def value_counts_def groupby_size_def por_mes_def
        mean_bool_def mean_def por_def dropna_def unique_def)
  have gen: "(tasa_retencion df = NaN) = (dropna (map col_cliente_id df) = []) \<and>
      (\<forall>x. tasa_retencion df = Valor x \<longrightarrow> 0 \<le> x \<and> x \<le> 100)"
  proof (cases "compras_por_cliente df = []")
    case True
    then have "tasa_retencion df = NaN"
      by (simp add: tasa_retencion_def mean_bool_def mean_def por_def)
    with True show ?thesis by (simp add: compras_Nil_iff)
  next
    case False
    then have "map (\<lambda>kn. snd kn > 1) (compras_por_cliente df) \<noteq> []" by simp
    from mean_bool_rango [OF this] obtain y where
      y: "mean_bool (map (\<lambda>kn. snd kn > 1) (compras_por_cliente df)) = Valor y"
      and r: "0 \<le> y" "y \<le> 1" by blast
    then have "tasa_retencion df = Valor (y * 100)"
      by (simp add: tasa_retencion_def por_def)
    with r False show ?thesis by (simp add: compras_Nil_iff)
  qed
  have tra: "(retencion dt = NaN) = (dropna (map tra_cliente_id dt) = []) \<and>
      (\<forall>x. retencion dt = Valor x \<longrightarrow> 0 \<le> x \<and> x \<le> 1)"
  proof (cases "clientes_frecuencia dt = []")
    case True
    then have "retencion dt = NaN"
      by (simp add: retencion_def mean_bool_def mean_def)
    with True show ?thesis by (simp add: frecuencia_Nil_iff)
  next
    case False
    then have "map (\<lambda>kn. snd kn > 1) (clientes_frecuencia dt) \<noteq> []" by simp
    from mean_bool_rango [OF this] obtain y where
      y: "mean_bool (map (\<lambda>kn. snd kn > 1) (clientes_frecuencia dt)) = Valor y"
      and r: "0 \<le> y" "y \<le> 1" by blast
    then have "retencion dt = Valor y"
      by (simp add: retencion_def)
    with r False show ?thesis by (simp add: frecuencia_Nil_iff)
  qed
  from vacio gen tra show ?thesis by blast
qed

theorem retencion_sin_clientes_witness:
  "tasa_retencion [fila1, fila3] = Valor 100 \<and> (0::real) \<le> 100 \<and> (100::real) \<le> 100 \<and>
   tasa_retencion [fila1, fila3] \<noteq> NaN \<and> dropna (map col_cliente_id [fila1, fila3]) \<noteq> [] \<and>
   retencion [((tx1, cl1), pr1), ((tx3, cl1), pr1)] = Valor 1 \<and> (0::real) \<le> 1 \<and>
   dropna (map tra_cliente_id [((tx1, cl1), pr1), ((tx3, cl1), pr1)]) \<noteq> []"
proof -
  have 1: "tasa_retencion [fila1, fila3] = Valor 100"
    by (simp add: tasa_retencion_def compras_por_cliente_def value_counts_def dropna_def
        unique_def mean_bool_def mean_def por_def columnas ejemplos)
  have 2: "retencion [((tx1, cl1), pr1), ((tx3, cl1), pr1)] = Valor 1"
    by (simp add: retencion_def clientes_frecuencia_def groupby_size_def dropna_def
        mean_bool_def mean_def tra_cliente_id_def ejemplos)
  from 1 2 retencion_sin_clientes [where df = "[fila1, fila3]"
      and dt = "[((tx1, cl1), pr1), ((tx3, cl1), pr1)]"]
  show ?thesis
    by (simp add: dropna_def tra_cliente_id_def ejemplos)
qed

theorem retencion_vacia_nan:
  "tasa_retencion [] = NaN \<and> retencion [] = NaN"
  by (simp add: tasa_retencion_def retencion_def compras_por_cliente_def
      clientes_frecuencia_def value_counts_def groupby_size_def mean_bool_def mean_def
      por_def dropna_def unique_def)

subsection \<open>The monthly series\<close>

lemma por_mes_meses:
  "df \<noteq> [] \<Longrightarrow>
   map fst (por_mes col df) =
     [Min (set (map (\<lambda>f. mes (col f)) df)) ..< Suc (Max (set (map (\<lambda>f. mes (col f)) df)))]"
  by (simp add: por_mes_def comp_def)

lemma por_mes_grupo:
  "(m, g) \<in> set (por_mes col df) \<Longrightarrow> g = filter (\<lambda>f. mes (col f) = m) df"
  by (auto simp: por_mes_def split: if_splits)

lemma por_mes_cubre:
  assumes "f \<in> set df"
  shows "mes (col f) \<in> fst ` set (por_mes col df)"
proof -
  from assms have ne: "df \<noteq> []" by auto
  from assms have "Min (set (map (\<lambda>f. mes (col f)) df)) \<le> mes (col f)"
    and "mes (col f) \<le> Max (set (map (\<lambda>f. mes (col f)) df))"
    by simp_all
  then have "mes (col f) \<in> set [Min (set (map (\<lambda>f. mes (col f)) df)) ..<
      Suc (Max (set (map (\<lambda>f. mes (col f)) df)))]"
    by (simp del: upt_Suc)
  then show ?thesis
    using por_mes_meses [OF ne, of col] by (metis set_map)
qed

lemma por_mes_orden: "sorted_wrt (<) (map fst (por_mes col df))"
  by (cases "df = []") (simp_all add: por_mes_def comp_def del: upt_Suc)

text \<open>
  C7 (amended). The monthly series of a view without rows is empty. Otherwise it has
  exactly one row for each calendar month from the month of the first transaction to
  the month of the last one, in chronological order: a month in between without a
  transaction is a row as well, with total 0 and count 0. Each row holds the sum of
  \<^verbatim>\<open>total\<close> and the number of the transactions of its month, and every month that has
  a transaction has its row. The series of tra.py has the same months, each with its
  sum.
\<close>

theorem datos_mensuales_meses:
  "datos_mensuales [] = [] \<and>
   (df \<noteq> [] \<longrightarrow>
      map fst (datos_mensuales df) =
        [Min (set (map (\<lambda>f. mes (col_fecha f)) df)) ..<
         Suc (Max (set (map (\<lambda>f. mes (col_fecha f)) df)))]) \<and>
   (\<forall>r \<in> set (datos_mensuales df).
      fst (snd r) = sum_list (map col_total (filter (\<lambda>f. mes (col_fecha f) = fst r) df)) \<and>
      snd (snd r) = length (filter (\<lambda>f. mes (col_fecha f) = fst r) df)) \<and>
   (\<forall>f \<in> set df. mes (col_fecha f) \<in> fst ` set (datos_mensuales df)) \<and>
   sorted_wrt (<) (map fst (datos_mensuales df)) \<and>
   (dt \<noteq> [] \<longrightarrow>
      map fst (ventas_mensuales_tra dt) =
        [Min (set (map (\<lambda>f. mes (tra_fecha f)) dt)) ..<
         Suc (Max (set (map (\<lambda>f. mes (tra_fecha f)) dt)))]) \<and>
   (\<forall>r \<in> set (ventas_mensuales_tra dt).
      snd r = sum_list (map tra_total (filter (\<lambda>f. mes (tra_fecha f) = fst r) dt)))"
proof -
  have fst_dm: "map fst (datos_mensuales df) = map fst (por_mes col_fecha df)"
    by (simp add: datos_mensuales_def comp_def case_prod_unfold)
  have 1: "datos_mensuales [] = []"
    by (simp add: datos_mensuales_def por_mes_def)
  have 2: "df \<noteq> [] \<longrightarrow>
      map fst (datos_mensuales df) =
        [Min (set (map (\<lambda>f. mes (col_fecha f)) df)) ..<
         Suc (Max (set (map (\<lambda>f. mes (col_fecha f)) df)))]"
    by (simp add: fst_dm por_mes_meses)
  have 3: "\<forall>r \<in> set (datos_mensuales df).
      fst (snd r) = sum_list (map col_total (filter (\<lambda>f. mes (col_fecha f) = fst r) df)) \<and>
      snd (snd r) = length (filter (\<lambda>f. mes (col_fecha f) = fst r) df)"
    by (auto simp: datos_mensuales_def dest!: por_mes_grupo)
  have 4: "\<forall>f \<in> set df. mes (col_fecha f) \<in> fst ` set (datos_mensuales df)"
    using por_mes_cubre [of _ df col_fecha] fst_dm by (metis set_map)
  have 5: "sorted_wrt (<) (map fst (datos_mensuales df))"
    by (simp add: fst_dm por_mes_orden)
  have "map fst (ventas_mensuales_tra dt) = map fst (por_mes tra_fecha dt)"
    by (simp add: ventas_mensuales_tra_def comp_def case_prod_unfold)
  then have 6: "dt \<noteq> [] \<longrightarrow>
      map fst (ventas_mensuales_tra dt) =
        [Min (set (map (\<lambda>f. mes (tra_fecha f)) dt)) ..<
         Suc (Max (set (map (\<lambda>f. mes (tra_fecha f)) dt)))]"
    by (simp add: por_mes_meses)
  have 7: "\<forall>r \<in> set (ventas_mensuales_tra dt).
      snd r = sum_list (map tra_total (filter (\<lambda>f. mes (tra_fecha f) = fst r) dt))"
    by (auto simp: ventas_mensuales_tra_def dest!: por_mes_grupo)
  from 1 2 3 4 5 6 7 show ?thesis by blast
qed

theorem datos_mensuales_meses_witness:
  "[fila1, fila3] \<noteq> [] \<and>
   map fst (datos_mensuales [fila1, fila3]) = [24288, 24289, 24290] \<and>
   fila3 \<in> set [fila1, fila3] \<and>
   mes (col_fecha fila3) \<in> fst ` set (datos_mensuales [fila1, fila3]) \<and>
   map fst (ventas_mensuales_tra [((tx1, cl1), pr1), ((tx3, cl1), pr1)]) = [24288, 24289, 24290]"
proof -
  note t = datos_mensuales_meses [of "[fila1, fila3]" "[((tx1, cl1), pr1), ((tx3, cl1), pr1)]"]
  have 1: "Min (set (map (\<lambda>f. mes (col_fecha f)) [fila1, fila3])) = 24288"
    and 2: "Max (set (map (\<lambda>f. mes (col_fecha f)) [fila1, fila3])) = 24290"
    by (simp_all add: mes_def columnas ejemplos)
  have 3: "Min (set (map (\<lambda>f. mes (tra_fecha f)) [((tx1, cl1), pr1), ((tx3, cl1), pr1)])) = 24288"
    and 4: "Max (set (map (\<lambda>f. mes (tra_fecha f)) [((tx1, cl1), pr1), ((tx3, cl1), pr1)])) = 24290"
    by (simp_all add: mes_def tra_fecha_def ejemplos)
  have a: "map fst (datos_mensuales [fila1, fila3]) = [24288, 24289, 24290]"
    using t [THEN conjunct2, THEN conjunct1, unfolded 1 2] by simp
  have b: "mes (col_fecha fila3) \<in> fst ` set (datos_mensuales [fila1, fila3])"
    using t [THEN conjunct2, THEN conjunct2, THEN conjunct2, THEN conjunct1] by simp
  have c: "map fst (ventas_mensuales_tra [((tx1, cl1), pr1), ((tx3, cl1), pr1)]) =
      [24288, 24289, 24290]"
    using t [THEN conjunct2, THEN conjunct2, THEN conjunct2, THEN conjunct2, THEN conjunct2,
        THEN conjunct1, unfolded 3 4] by simp
  from a b c show ?thesis by simp
qed

theorem datos_mensuales_mes_vacio:
  "mes (col_fecha fila1) = 24288 \<and> mes (col_fecha fila3) = 24290 \<and>
   datos_mensuales [fila1, fila3] = [(24288, 1200000, 1), (24289, 0, 0), (24290, 300, 1)] \<and>
   ventas_mensuales_tra [((tx1, cl1), pr1), ((tx3, cl1), pr1)] =
     [(24288, 1200000), (24289, 0), (24290, 300)]"
  by (simp add: datos_mensuales_def ventas_mensuales_tra_def por_mes_def mes_def
      tra_fecha_def tra_total_def columnas ejemplos)

subsection \<open>Totals by category\<close>

lemma suma_ningun_grupo:
  "k \<notin> set ks \<Longrightarrow> (\<Sum>j\<leftarrow>ks. if j = k then (t::real) else 0) = 0"
  by (induction ks) auto

lemma suma_un_grupo:
  assumes "distinct ks" and "k \<in> set ks"
  shows "(\<Sum>j\<leftarrow>ks. if j = k then (t::real) else 0) = t"
  using assms by (induction ks) (auto simp: suma_ningun_grupo)

lemma suma_por_grupos:
  assumes "distinct ks" and "\<forall>f \<in> set df. \<exists>k \<in> set ks. clave f = Some k"
  shows "(\<Sum>k\<leftarrow>ks. sum_list (map (val :: 'r \<Rightarrow> real) (filter (\<lambda>f. clave f = Some k) df))) =
         sum_list (map val df)"
  using assms(2)
proof (induction df)
  case Nil
  then show ?case by (simp add: sum_list_0)
next
  case (Cons f df)
  then obtain k where k: "k \<in> set ks" "clave f = Some k" by auto
  have "(\<Sum>j\<leftarrow>ks. sum_list (map val (filter (\<lambda>f. clave f = Some j) (f # df)))) =
        (\<Sum>j\<leftarrow>ks. (if j = k then val f else 0) +
                  sum_list (map val (filter (\<lambda>f. clave f = Some j) df)))"
    by (rule arg_cong [where f = sum_list], rule map_cong) (auto simp: k)
  also have "\<dots> = (\<Sum>j\<leftarrow>ks. if j = k then val f else 0) +
                  (\<Sum>j\<leftarrow>ks. sum_list (map val (filter (\<lambda>f. clave f = Some j) df)))"
    by (rule sum_list_addf)
  also have "\<dots> = val f + sum_list (map val df)"
    using Cons suma_un_grupo [OF assms(1) k(1)] by simp
  finally show ?case by simp
qed

lemma abs_suma_nonneg: "0 \<le> (\<Sum>x\<leftarrow>xs. \<bar>x::real\<bar>)"
  by (rule sum_list_nonneg) auto

lemma abs_sum_list: "\<bar>sum_list xs\<bar> \<le> (\<Sum>x\<leftarrow>xs. \<bar>x::real\<bar>)"
  by (induction xs) auto

lemma sum_list_en:
  assumes "sin_redondeo red S cota" and "set xs \<subseteq> S"
  shows "sum_list xs \<in> S"
  using assms(2)
proof (induction xs)
  case Nil
  with assms(1) show ?case by (simp add: sin_redondeo_def)
next
  case (Cons x xs)
  with assms(1) show ?case by (simp add: sin_redondeo_def)
qed

lemma red_suma:
  assumes r: "sin_redondeo red S cota" and "x \<in> S" and "y \<in> S" and "\<bar>x\<bar> + \<bar>y\<bar> \<le> cota"
  shows "red (x + y) = x + y"
proof -
  from assms have "x + y \<in> S" and "\<bar>x + y\<bar> \<le> cota"
    by (simp_all add: sin_redondeo_def)
  with r show ?thesis by (simp add: sin_redondeo_def)
qed

lemma sumar_exacta:
  assumes r: "sin_redondeo red S cota"
  shows "s \<in> S \<Longrightarrow> set xs \<subseteq> S \<Longrightarrow> \<bar>s\<bar> + (\<Sum>x\<leftarrow>xs. \<bar>x\<bar>) \<le> cota \<Longrightarrow>
         sumar red s xs = s + sum_list xs"
proof (induction xs arbitrary: s)
  case Nil
  then show ?case by (simp add: sumar_def)
next
  case (Cons x xs)
  from Cons.prems have x: "x \<in> S" and xs: "set xs \<subseteq> S" by simp_all
  from r x Cons.prems(1) have sx: "s + x \<in> S"
    by (simp add: sin_redondeo_def)
  from Cons.prems(3) abs_suma_nonneg [of xs]
  have b: "\<bar>s\<bar> + \<bar>x\<bar> \<le> cota" and b': "\<bar>s + x\<bar> + (\<Sum>x\<leftarrow>xs. \<bar>x\<bar>) \<le> cota"
    by simp_all
  from red_suma [OF r Cons.prems(1) x b] Cons.IH [OF sx xs b'] show ?case
    by (simp add: sumar_def)
qed

lemma map2_exacta:
  assumes r: "sin_redondeo red S cota"
  shows "length rs = length xs \<Longrightarrow> set rs \<subseteq> S \<Longrightarrow> set xs \<subseteq> S \<Longrightarrow>
         (\<Sum>x\<leftarrow>rs. \<bar>x\<bar>) + (\<Sum>x\<leftarrow>xs. \<bar>x\<bar>) \<le> cota \<Longrightarrow>
         set (map2 (\<lambda>s x. red (s + x)) rs xs) \<subseteq> S \<and>
         length (map2 (\<lambda>s x. red (s + x)) rs xs) = length rs \<and>
         sum_list (map2 (\<lambda>s x. red (s + x)) rs xs) = sum_list rs + sum_list xs \<and>
         (\<Sum>x\<leftarrow>map2 (\<lambda>s x. red (s + x)) rs xs. \<bar>x\<bar>) \<le> (\<Sum>x\<leftarrow>rs. \<bar>x\<bar>) + (\<Sum>x\<leftarrow>xs. \<bar>x\<bar>)"
proof (induction rs xs rule: list_induct2)
  case Nil
  then show ?case by simp
next
  case (Cons s rs x xs)
  from Cons.prems have s: "s \<in> S" and x: "x \<in> S" and rs: "set rs \<subseteq> S" and xs: "set xs \<subseteq> S"
    by simp_all
  from Cons.prems(3) abs_suma_nonneg [of rs] abs_suma_nonneg [of xs]
  have b: "\<bar>s\<bar> + \<bar>x\<bar> \<le> cota" and b': "(\<Sum>x\<leftarrow>rs. \<bar>x\<bar>) + (\<Sum>x\<leftarrow>xs. \<bar>x\<bar>) \<le> cota"
    by simp_all
  note e = red_suma [OF r s x b]
  from r s x have "s + x \<in> S" by (simp add: sin_redondeo_def)
  with Cons.IH [OF rs xs b'] e abs_triangle_ineq [of s x] show ?case
    by (simp del: abs_triangle_ineq)
qed

lemma acumular_exacta:
  "sin_redondeo red S cota \<Longrightarrow> length rs = 8 \<Longrightarrow> 8 dvd length xs \<Longrightarrow>
   set rs \<subseteq> S \<Longrightarrow> set xs \<subseteq> S \<Longrightarrow>
   (\<Sum>x\<leftarrow>rs. \<bar>x\<bar>) + (\<Sum>x\<leftarrow>xs. \<bar>x\<bar>) \<le> cota \<Longrightarrow>
   set (acumular red rs xs) \<subseteq> S \<and> length (acumular red rs xs) = 8 \<and>
   sum_list (acumular red rs xs) = sum_list rs + sum_list xs \<and>
   (\<Sum>x\<leftarrow>acumular red rs xs. \<bar>x\<bar>) \<le> (\<Sum>x\<leftarrow>rs. \<bar>x\<bar>) + (\<Sum>x\<leftarrow>xs. \<bar>x\<bar>)"
proof (induction red rs xs rule: acumular.induct)
  case (1 red r x0 x1 x2 x3 x4 x5 x6 x7 xs)
  note sr = "1.prems"(1)
  let ?b = "[x0, x1, x2, x3, x4, x5, x6, x7]"
  let ?r = "map2 (\<lambda>s x. red (s + x)) r ?b"
  from "1.prems"(6) abs_suma_nonneg [of xs]
  have b: "(\<Sum>x\<leftarrow>r. \<bar>x\<bar>) + (\<Sum>x\<leftarrow>?b. \<bar>x\<bar>) \<le> cota"
    by simp
  from "1.prems" have lb: "length r = length ?b" and sb: "set ?b \<subseteq> S" and xs: "set xs \<subseteq> S"
    by simp_all
  have "length (x0 # x1 # x2 # x3 # x4 # x5 # x6 # x7 # xs) = length xs + 8"
    by simp
  with "1.prems"(3) have d: "8 dvd length xs"
    by (simp only: dvd_add_triv_right_iff)
  from map2_exacta [OF sr lb "1.prems"(4) sb b]
  have m: "set ?r \<subseteq> S" "length ?r = length r" "sum_list ?r = sum_list r + sum_list ?b"
    "(\<Sum>x\<leftarrow>?r. \<bar>x\<bar>) \<le> (\<Sum>x\<leftarrow>r. \<bar>x\<bar>) + (\<Sum>x\<leftarrow>?b. \<bar>x\<bar>)"
    by blast+
  from m(4) "1.prems"(6) have b': "(\<Sum>x\<leftarrow>?r. \<bar>x\<bar>) + (\<Sum>x\<leftarrow>xs. \<bar>x\<bar>) \<le> cota"
    by simp
  from m(2) "1.prems"(2) have l: "length ?r = 8" by simp
  from "1.IH" [OF sr l d m(1) xs b'] m(3) m(4) show ?case
    by simp
qed (auto simp: abs_suma_nonneg dest: dvd_imp_le)


lemma suma_par:
  assumes "sin_redondeo red S cota" and "x \<in> S" and "y \<in> S" and "\<bar>x\<bar> + \<bar>y\<bar> \<le> cota"
  shows "red (x + y) = x + y \<and> x + y \<in> S \<and> \<bar>x + y\<bar> \<le> \<bar>x\<bar> + \<bar>y\<bar>"
  using red_suma [OF assms] assms(1,2,3) by (simp add: sin_redondeo_def)

lemma ocho_cotas:
  fixes a0 :: real
  assumes "0 \<le> a0" "0 \<le> a1" "0 \<le> a2" "0 \<le> a3" "0 \<le> a4" "0 \<le> a5" "0 \<le> a6" "0 \<le> a7"
    and "a0 + (a1 + (a2 + (a3 + (a4 + (a5 + (a6 + a7)))))) \<le> c"
    and "x01 \<le> a0 + a1" "x23 \<le> a2 + a3" "x45 \<le> a4 + a5" "x67 \<le> a6 + a7"
    and "x03 \<le> x01 + x23" "x47 \<le> x45 + x67"
  shows "a0 + a1 \<le> c" "a2 + a3 \<le> c" "a4 + a5 \<le> c" "a6 + a7 \<le> c"
    "x01 + x23 \<le> c" "x45 + x67 \<le> c" "x03 + x47 \<le> c"
  using assms by linarith+

lemma arbol_exacto:
  assumes r: "sin_redondeo red S cota"
    and s: "set [r0, r1, r2, r3, r4, r5, r6, r7] \<subseteq> S"
    and b: "(\<Sum>x\<leftarrow>[r0, r1, r2, r3, r4, r5, r6, r7]. \<bar>x\<bar>) \<le> cota"
  shows "red (red (red (r0 + r1) + red (r2 + r3)) + red (red (r4 + r5) + red (r6 + r7))) =
         sum_list [r0, r1, r2, r3, r4, r5, r6, r7]"
proof -
  from s have m: "r0 \<in> S" "r1 \<in> S" "r2 \<in> S" "r3 \<in> S" "r4 \<in> S" "r5 \<in> S" "r6 \<in> S" "r7 \<in> S"
    by simp_all
  from b have b': "\<bar>r0\<bar> + (\<bar>r1\<bar> + (\<bar>r2\<bar> + (\<bar>r3\<bar> + (\<bar>r4\<bar> + (\<bar>r5\<bar> + (\<bar>r6\<bar> + \<bar>r7\<bar>)))))) \<le> cota"
    by simp
  note c = ocho_cotas [OF abs_ge_zero abs_ge_zero abs_ge_zero abs_ge_zero abs_ge_zero
      abs_ge_zero abs_ge_zero abs_ge_zero b'
      abs_triangle_ineq [of r0 r1] abs_triangle_ineq [of r2 r3]
      abs_triangle_ineq [of r4 r5] abs_triangle_ineq [of r6 r7]
      abs_triangle_ineq [of "r0 + r1" "r2 + r3"] abs_triangle_ineq [of "r4 + r5" "r6 + r7"]]
  note p01 = suma_par [OF r m(1) m(2) c(1)] and p23 = suma_par [OF r m(3) m(4) c(2)]
    and p45 = suma_par [OF r m(5) m(6) c(3)] and p67 = suma_par [OF r m(7) m(8) c(4)]
  from p01 p23 have "r0 + r1 \<in> S" and "r2 + r3 \<in> S" by simp_all
  note p03 = suma_par [OF r this c(5)]
  from p45 p67 have "r4 + r5 \<in> S" and "r6 + r7 \<in> S" by simp_all
  note p47 = suma_par [OF r this c(6)]
  from p03 p47 have "r0 + r1 + (r2 + r3) \<in> S" and "r4 + r5 + (r6 + r7) \<in> S" by simp_all
  note p07 = suma_par [OF r this c(7)]
  from p01 p23 p45 p67 p03 p47 p07 show ?thesis by simp
qed

lemma lista_de_ocho:
  "length r = 8 \<Longrightarrow> \<exists>r0 r1 r2 r3 r4 r5 r6 r7. r = [r0, r1, r2, r3, r4, r5, r6, r7]"
  by (auto simp: numeral_eq_Suc length_Suc_conv)

lemma abs_take_drop:
  "(\<Sum>x\<leftarrow>take k xs. \<bar>x::real\<bar>) + (\<Sum>x\<leftarrow>drop k xs. \<bar>x\<bar>) = (\<Sum>x\<leftarrow>xs. \<bar>x\<bar>)"
  by (metis append_take_drop_id map_append sum_list_append)

lemma sum_take_drop: "sum_list (take k xs) + sum_list (drop k xs) = sum_list (xs :: real list)"
  by (metis append_take_drop_id sum_list_append)

lemma pairwise_exacta:
  "sin_redondeo red S cota \<Longrightarrow> set a \<subseteq> S \<Longrightarrow> (\<Sum>x\<leftarrow>a. \<bar>x\<bar>) \<le> cota \<Longrightarrow>
   pairwise_sum red a = sum_list a"
proof (induction red a rule: pairwise_sum.induct)
  case (1 red a)
  note r = "1.prems"(1) and s = "1.prems"(2) and b = "1.prems"(3)
  from r have z: "0 \<in> S" by (simp add: sin_redondeo_def)
  consider (corta) "length a < 8" | (bloques) "8 \<le> length a" "length a \<le> 128"
    | (mitades) "128 < length a"
    by linarith
  then show ?case
  proof cases
    case corta
    with sumar_exacta [OF r z s] b show ?thesis
      by (simp add: pairwise_sum.simps [of red a])
  next
    case bloques
    define m where "m = length a - length a mod 8"
    define rr where "rr = acumular red (take 8 a) (drop 8 (take m a))"
    from bloques have m8: "8 \<le> m" and ma: "m \<le> length a" and md: "8 dvd m"
      unfolding m_def by (presburger, simp, presburger)
    from s have s1: "set (take 8 a) \<subseteq> S" and s2: "set (drop 8 (take m a)) \<subseteq> S"
      and s3: "set (drop m a) \<subseteq> S"
      by (meson set_take_subset set_drop_subset subset_trans)+
    have l1: "length (take 8 a) = 8"
      using bloques by simp
    have l2: "8 dvd length (drop 8 (take m a))"
      using m8 ma md by (simp add: min_def)
    have bt: "(\<Sum>x\<leftarrow>take 8 a. \<bar>x\<bar>) + (\<Sum>x\<leftarrow>drop 8 (take m a). \<bar>x\<bar>) = (\<Sum>x\<leftarrow>take m a. \<bar>x\<bar>)"
      using abs_take_drop [of 8 "take m a"] m8 by (simp add: min_def)
    have st: "sum_list (take 8 a) + sum_list (drop 8 (take m a)) = sum_list (take m a)"
      using sum_take_drop [of 8 "take m a"] m8 by (simp add: min_def)
    from abs_take_drop [of m a] b abs_suma_nonneg [of "drop m a"]
    have bm: "(\<Sum>x\<leftarrow>take m a. \<bar>x\<bar>) \<le> cota" by simp
    from acumular_exacta [OF r l1 l2 s1 s2] bt bm st
    have a: "set rr \<subseteq> S" "length rr = 8" "sum_list rr = sum_list (take m a)"
      "(\<Sum>x\<leftarrow>rr. \<bar>x\<bar>) \<le> (\<Sum>x\<leftarrow>take m a. \<bar>x\<bar>)"
      by (simp_all add: rr_def)
    from lista_de_ocho [OF a(2)] obtain r0 r1 r2 r3 r4 r5 r6 r7
      where e: "rr = [r0, r1, r2, r3, r4, r5, r6, r7]" by blast
    have t: "red (red (red (rr ! 0 + rr ! 1) + red (rr ! 2 + rr ! 3)) +
                  red (red (rr ! 4 + rr ! 5) + red (rr ! 6 + rr ! 7))) = sum_list rr"
    proof -
      have "set [r0, r1, r2, r3, r4, r5, r6, r7] \<subseteq> S"
        using a(1) unfolding e .
      moreover have "(\<Sum>x\<leftarrow>[r0, r1, r2, r3, r4, r5, r6, r7]. \<bar>x\<bar>) \<le> cota"
        using a(4) bm unfolding e by (rule order_trans)
      ultimately have "red (red (red (r0 + r1) + red (r2 + r3)) +
          red (red (r4 + r5) + red (r6 + r7))) = sum_list [r0, r1, r2, r3, r4, r5, r6, r7]"
        by (rule arbol_exacto [OF r])
      then show ?thesis
        unfolding e by simp
    qed
    from a(1) have rs: "sum_list rr \<in> S"
      by (rule sum_list_en [OF r])
    have "\<bar>sum_list rr\<bar> + (\<Sum>x\<leftarrow>drop m a. \<bar>x\<bar>) \<le> cota"
      using abs_sum_list [of rr] a(4) abs_take_drop [of m a] b by simp
    from sumar_exacta [OF r rs s3 this] a(3) sum_take_drop [of m a]
    have "sumar red (sum_list rr) (drop m a) = sum_list a"
      by simp
    with bloques t show ?thesis
      by (simp add: pairwise_sum.simps [of red a] Let_def m_def [symmetric] rr_def [symmetric])
  next
    case mitades
    define n2 where "n2 = length a div 2 - (length a div 2) mod 8"
    from mitades have c: "\<not> length a < 8" "\<not> length a \<le> 128" by simp_all
    from s have s1: "set (take n2 a) \<subseteq> S" and s2: "set (drop n2 a) \<subseteq> S"
      by (meson set_take_subset set_drop_subset subset_trans)+
    from abs_take_drop [of n2 a] b abs_suma_nonneg [of "take n2 a"] abs_suma_nonneg [of "drop n2 a"]
    have b1: "(\<Sum>x\<leftarrow>take n2 a. \<bar>x\<bar>) \<le> cota" and b2: "(\<Sum>x\<leftarrow>drop n2 a. \<bar>x\<bar>) \<le> cota"
      by simp_all
    have p1: "pairwise_sum red (take n2 a) = sum_list (take n2 a)"
      by (rule "1.IH"(1) [OF c n2_def r s1 b1])
    have p2: "pairwise_sum red (drop n2 a) = sum_list (drop n2 a)"
      by (rule "1.IH"(2) [OF c n2_def r s2 b2])
    have "\<bar>sum_list (take n2 a)\<bar> + \<bar>sum_list (drop n2 a)\<bar> \<le> cota"
      using abs_sum_list [of "take n2 a"] abs_sum_list [of "drop n2 a"] abs_take_drop [of n2 a] b
      by simp
    from red_suma [OF r sum_list_en [OF r s1] sum_list_en [OF r s2] this] sum_take_drop [of n2 a]
    have "red (sum_list (take n2 a) + sum_list (drop n2 a)) = sum_list a"
      by simp
    with c p1 p2 show ?thesis
      by (simp add: pairwise_sum.simps [of red a] Let_def n2_def [symmetric])
  qed
qed

lemma sum_columna_exacta:
  assumes "sin_redondeo red S cota" and "set xs \<subseteq> S" and "(\<Sum>x\<leftarrow>xs. \<bar>x\<bar>) \<le> cota"
  shows "sum_columna red xs = sum_list xs"
  using pairwise_exacta [OF assms] by (simp add: sum_columna_def)

lemma kahan_exacta:
  assumes r: "sin_redondeo red S cota"
  shows "s \<in> S \<Longrightarrow> set xs \<subseteq> S \<Longrightarrow> \<bar>s\<bar> + (\<Sum>x\<leftarrow>xs. \<bar>x\<bar>) \<le> cota \<Longrightarrow>
         foldl (kahan_paso red) (s, 0) xs = (s + sum_list xs, 0)"
proof (induction xs arbitrary: s)
  case Nil
  then show ?case by simp
next
  case (Cons x xs)
  from Cons.prems have x: "x \<in> S" and xs: "set xs \<subseteq> S" by simp_all
  from r x Cons.prems(1) have sx: "s + x \<in> S"
    by (simp add: sin_redondeo_def)
  have n: "0 \<le> (\<Sum>x\<leftarrow>xs. \<bar>x\<bar>)"
    by (rule sum_list_nonneg) auto
  with Cons.prems(3) have b: "\<bar>s + x\<bar> \<le> cota" and b': "\<bar>s + x\<bar> + (\<Sum>x\<leftarrow>xs. \<bar>x\<bar>) \<le> cota"
    and bx: "\<bar>x\<bar> \<le> cota" and b0: "\<bar>0::real\<bar> \<le> cota"
    by simp_all
  from r have z: "0 \<in> S" by (simp add: sin_redondeo_def)
  from r sx b have 1: "red (s + x) = s + x"
    by (simp add: sin_redondeo_def)
  from r x bx have 2: "red x = x"
    by (simp add: sin_redondeo_def)
  from r z b0 have 3: "red 0 = 0"
    unfolding sin_redondeo_def by blast
  have "kahan_paso red (s, 0) x = (s + x, 0)"
    by (simp add: kahan_paso_def Let_def 1 2 3)
  with Cons.IH [OF sx xs b'] show ?case by simp
qed

lemma sum_grupo_exacta:
  assumes "sin_redondeo red S cota" and "set xs \<subseteq> S" and "(\<Sum>x\<leftarrow>xs. \<bar>x\<bar>) \<le> cota"
  shows "sum_grupo red xs = sum_list xs"
  using kahan_exacta [OF assms(1), of 0 xs] assms
  by (simp add: sum_grupo_def sin_redondeo_def)

lemma sum_list_filter_le:
  "(\<Sum>x\<leftarrow>filter P xs. \<bar>val x :: real\<bar>) \<le> (\<Sum>x\<leftarrow>xs. \<bar>val x\<bar>)"
  by (induction xs) auto

lemma ventas_por_categoria_suma:
  assumes c: "\<forall>f \<in> set v. col_categoria f \<noteq> None"
    and r: "sin_redondeo red S cota"
    and s: "\<forall>f \<in> set v. col_total f \<in> S"
    and b: "(\<Sum>f\<leftarrow>v. \<bar>col_total f\<bar>) \<le> cota"
  shows "ventas_totales red v = sum_columna red (map snd (ventas_por_categoria red v))"
proof -
  let ?ks = "sort (remdups (dropna (map col_categoria v)))"
  let ?g = "\<lambda>k. filter (\<lambda>f. col_categoria f = Some k) v"
  have d: "distinct ?ks" by simp
  have ck: "\<forall>f \<in> set v. \<exists>k \<in> set ?ks. col_categoria f = Some k"
    using c by (force simp: image_iff set_dropna)
  have g: "sum_grupo red (map col_total (?g k)) = sum_list (map col_total (?g k))" for k
  proof (rule sum_grupo_exacta [OF r])
    show "set (map col_total (?g k)) \<subseteq> S"
      using s by auto
    have "(\<Sum>x\<leftarrow>map col_total (?g k). \<bar>x\<bar>) = (\<Sum>f\<leftarrow>?g k. \<bar>col_total f\<bar>)"
      by (simp add: comp_def)
    also have "\<dots> \<le> (\<Sum>f\<leftarrow>v. \<bar>col_total f\<bar>)"
      by (rule sum_list_filter_le)
    finally show "(\<Sum>x\<leftarrow>map col_total (?g k). \<bar>x\<bar>) \<le> cota"
      using b by simp
  qed
  have t: "map snd (ventas_por_categoria red v) = map (\<lambda>k. sum_list (map col_total (?g k))) ?ks"
    by (simp add: ventas_por_categoria_def comp_def g)
  have "sum_columna red (map snd (ventas_por_categoria red v)) =
        sum_list (map snd (ventas_por_categoria red v))"
  proof (rule sum_columna_exacta [OF r])
    show "set (map snd (ventas_por_categoria red v)) \<subseteq> S"
      unfolding t using s by (auto intro!: sum_list_en [OF r])
    have "(\<Sum>x\<leftarrow>map snd (ventas_por_categoria red v). \<bar>x\<bar>) =
          (\<Sum>k\<leftarrow>?ks. \<bar>sum_list (map col_total (?g k))\<bar>)"
      unfolding t by (simp add: comp_def)
    also have "\<dots> \<le> (\<Sum>k\<leftarrow>?ks. sum_list (map (\<lambda>f. \<bar>col_total f\<bar>) (?g k)))"
    proof (rule sum_list_mono)
      fix k
      show "\<bar>sum_list (map col_total (?g k))\<bar> \<le> sum_list (map (\<lambda>f. \<bar>col_total f\<bar>) (?g k))"
        using abs_sum_list [of "map col_total (?g k)"] by (simp add: comp_def)
    qed
    also have "\<dots> = (\<Sum>f\<leftarrow>v. \<bar>col_total f\<bar>)"
      by (rule suma_por_grupos [OF d ck])
    finally show "(\<Sum>x\<leftarrow>map snd (ventas_por_categoria red v). \<bar>x\<bar>) \<le> cota"
      using b by simp
  qed
  also have "\<dots> = (\<Sum>k\<leftarrow>?ks. sum_list (map col_total (?g k)))"
    unfolding t by simp
  also have "\<dots> = sum_list (map col_total v)"
    by (rule suma_por_grupos [OF d ck])
  also have "\<dots> = ventas_totales red v"
    unfolding ventas_totales_def
    by (rule sum_columna_exacta [OF r, symmetric]) (use s b in \<open>auto simp: comp_def\<close>)
  finally show ?thesis by simp
qed

text \<open>
  The rounding of float64 leaves a whole number up to \<open>2 ^ 53\<close> as it is.
\<close>

lemma exponente_ok:
  "lo \<le> hi \<Longrightarrow> hi - lo < 2 ^ n \<Longrightarrow> 2 powi lo \<le> x \<Longrightarrow> x < 2 powi (hi + 1) \<Longrightarrow>
   lo \<le> exponente n lo hi x \<and> exponente n lo hi x \<le> hi \<and>
   2 powi (exponente n lo hi x) \<le> x \<and> x < 2 powi (exponente n lo hi x + 1)"
proof (induction n arbitrary: lo hi)
  case 0
  then have "hi = lo" by simp
  with 0 show ?case by simp
next
  case (Suc n)
  define mid where "mid = (lo + hi + 1) div 2"
  from Suc.prems(2) have w: "hi - lo < 2 * 2 ^ n" by simp
  show ?case
  proof (cases "2 powi mid \<le> x")
    case True
    have 1: "mid \<le> hi" and 2: "hi - mid < 2 ^ n" and 3: "lo \<le> mid"
      using Suc.prems(1) w by (simp_all add: mid_def)
    from Suc.IH [OF 1 2 True Suc.prems(4)] 3 True show ?thesis
      by (simp add: mid_def [symmetric] Let_def)
  next
    case False
    then have x: "x < 2 powi (mid - 1 + 1)" by simp
    have "lo \<noteq> hi"
    proof
      assume "lo = hi"
      then have "mid = lo" by (simp add: mid_def)
      with Suc.prems(3) False show False by simp
    qed
    with Suc.prems(1) have lt: "lo < hi" by simp
    have 1: "lo \<le> mid - 1" and 2: "mid - 1 - lo < 2 ^ n" and 3: "mid - 1 \<le> hi"
      using lt w by (simp_all add: mid_def)
    from Suc.IH [OF 1 2 Suc.prems(3) x] 3 False show ?thesis
      by (simp add: mid_def [symmetric] Let_def)
  qed
qed


lemma redondear_par_entero: "redondear_par (of_int m) = m"
  by (simp add: redondear_par_def)

lemma redondear_positivo:
  assumes z: "a \<in> \<int>" and p: "0 < a" and b: "a \<le> 2 ^ 53"
  shows "(let u = 2 powi (exponente 12 (- 1022) 1023 a - 52)
          in of_int (redondear_par (a / u)) * u) = (a::real)"
proof -
  define e where "e = exponente 12 (- 1022) 1023 a"
  from z p have a1: "1 \<le> a"
    by (auto elim!: Ints_cases)
  have "(2::real) powi (- 1022) \<le> 1"
    by (simp add: power_int_minus field_simps)
  with a1 have lo: "2 powi (- 1022) \<le> a" by simp
  have "(2::real) ^ 53 < 2 powi (1023 + 1)"
    by simp
  with b have hi: "a < 2 powi (1023 + 1)" by simp
  from exponente_ok [of "- 1022" 1023 12 a, OF _ _ lo hi]
  have e1: "2 powi e \<le> a" and e2: "a < 2 powi (e + 1)"
    by (simp_all add: e_def)
  have e0: "0 \<le> e"
  proof (rule ccontr)
    assume "\<not> 0 \<le> e"
    then have "e + 1 \<le> 0" by simp
    then have "(2::real) powi (e + 1) \<le> 2 powi 0"
      by (intro power_int_increasing) simp_all
    with e2 a1 show False by simp
  qed
  have e53: "e \<le> 53"
  proof (rule ccontr)
    assume "\<not> e \<le> 53"
    then have "54 \<le> e" by simp
    then have "(2::real) powi 54 \<le> 2 powi e"
      by (intro power_int_increasing) simp_all
    with e1 b show False by simp
  qed
  from z obtain m where m: "a = of_int m"
    by (auto elim!: Ints_cases)
  have "\<exists>k. a / 2 powi (e - 52) = of_int k"
  proof (cases "e \<le> 52")
    case True
    then have "(2::real) powi (e - 52) = 1 / 2 ^ nat (52 - e)"
      by (simp add: power_int_def field_simps)
    then have "a / 2 powi (e - 52) = of_int (m * 2 ^ nat (52 - e))"
      by (simp add: m)
    then show ?thesis by blast
  next
    case False
    with e53 have e: "e = 53" by simp
    with e1 b have "a = 2 ^ 53" by simp
    with e have "a / 2 powi (e - 52) = of_int (2 ^ 52)"
      by simp
    then show ?thesis by blast
  qed
  then obtain k where k: "a / 2 powi (e - 52) = of_int k" by blast
  have "(2::real) powi (e - 52) \<noteq> 0" by simp
  with k have "of_int k * 2 powi (e - 52) = a"
    by (simp add: field_simps)
  with k show ?thesis
    by (simp add: e_def [symmetric] Let_def redondear_par_entero)
qed

lemma redondear_entero:
  assumes "x \<in> \<int>" and "\<bar>x\<bar> \<le> 2 ^ 53"
  shows "redondear x = x"
proof (cases "x = 0")
  case True
  then show ?thesis by (simp add: redondear_def)
next
  case False
  with assms have "\<bar>x\<bar> \<in> \<int>" and "0 < \<bar>x\<bar>"
    by simp_all
  from redondear_positivo [OF this assms(2)] False show ?thesis
    by (simp add: redondear_def Let_def sgn_real_def abs_if split: if_splits)
qed

lemma sin_redondeo_exacto: "(\<forall>x. red x = x) \<Longrightarrow> sin_redondeo red UNIV cota"
  by (simp add: sin_redondeo_def)

lemma sin_redondeo_enteros: "sin_redondeo redondear \<int> (2 ^ 53)"
  by (simp add: sin_redondeo_def redondear_entero)

lemma filtro_ejemplo: "df_filtrado sel1 [fila1n, fila3n] = [fila1n, fila3n]"
  by (simp add: df_filtrado_def condicion_filtro_def columnas ejemplos)

text \<open>The table of the three amounts 0.1, 0.2 and 0.3.\<close>

lemmas flotante64 = redondear_def redondear_par_def d01_def d02_def d03_def numeral_eq_Suc Let_def

lemmas vista_d_defs = vista_d_def fila_d_def tx1_def pr1_def cl1_def

lemma vista_d_normal: "normalizar ucd_extracto vista_d = Inr vista_d"
proof -
  have "normalizar_texto ucd_extracto (texto_de ''Books'') = texto_de ''Books''"
    and "normalizar_texto ucd_extracto (texto_de ''Electronics'') = texto_de ''Electronics''"
    and "normalizar_texto ucd_extracto (texto_de ''Premium'') = texto_de ''Premium''"
    and "normalizar_texto ucd_extracto (texto_de ''Efectivo'') = texto_de ''Efectivo''"
    by (simp_all add: texto_defs)
  then show ?thesis
    by (simp add: normalizar_def normalizar_columna_def poner_categoria_def
        poner_segmento_def poner_metodo_pago_def columnas vista_d_defs)
qed

lemma vista_d_filtro: "df_filtrado sel_d vista_d = vista_d"
  by (simp add: df_filtrado_def condicion_filtro_def columnas vista_d_defs sel_d_def
      texto_de_def)

lemma vista_d_totales: "map col_total vista_d = [d01, d02, d03]"
  by (simp add: columnas vista_d_defs)

lemma suma_decimales:
  "sum_columna redondear [d01, d02, d03] = 5404319552844596 / 9007199254740992"
  by (simp add: sum_columna_corta flotante64)

lemma vista_d_categorias:
  "ventas_por_categoria red vista_d =
     [(texto_de ''Books'', sum_grupo red [d01]),
      (texto_de ''Electronics'', sum_grupo red [d02, d03])]"
  by (simp add: ventas_por_categoria_def dropna_def columnas vista_d_defs texto_de_def)

lemma grupo_decimales_1: "sum_grupo redondear [d01] = d01"
  by (simp add: sum_grupo_def kahan_paso_def flotante64)

lemma grupo_decimales_2: "sum_grupo redondear [d02, d03] = 1 / 2"
  by (simp add: sum_grupo_def kahan_paso_def flotante64)

lemma suma_categorias_decimales:
  "sum_columna redondear [d01, 1 / 2] = 5404319552844595 / 9007199254740992"
  by (simp add: sum_columna_corta flotante64)

text \<open>
  C8 (amended). For every view that the filter of dashboard.py returns from a
  normalised table, the total sales equal the sum of the totals by category when the
  additions do not round: in exact arithmetic (\<open>red\<close> changes no number), and in
  float64 when the amounts are whole numbers whose absolute values add up to at most
  \<open>2 ^ 53\<close>. (A row without a category would be left out of the totals by category
  and not of the total sales; no such row gets past lines 48-50, see
  \<open>normalizar_sin_nulos\<close> and \<open>normalizar_sin_producto\<close>.)
\<close>

theorem ventas_totales_por_categoria:
  assumes "normalizar u df0 = Inr df"
  shows "((\<forall>x. red x = x) \<longrightarrow>
            ventas_totales red (df_filtrado sel df) =
            sum_columna red (map snd (ventas_por_categoria red (df_filtrado sel df)))) \<and>
         ((\<forall>f \<in> set (df_filtrado sel df). col_total f \<in> \<int>) \<and>
          (\<Sum>f\<leftarrow>df_filtrado sel df. \<bar>col_total f\<bar>) \<le> 2 ^ 53 \<longrightarrow>
            ventas_totales redondear (df_filtrado sel df) =
            sum_columna redondear (map snd (ventas_por_categoria redondear (df_filtrado sel df))))"
proof -
  have c: "\<forall>f \<in> set (df_filtrado sel df). col_categoria f \<noteq> None"
    using normalizar_sin_nulos [OF assms] by (simp add: df_filtrado_def)
  have "ventas_totales red (df_filtrado sel df) =
        sum_columna red (map snd (ventas_por_categoria red (df_filtrado sel df)))"
    if "\<forall>x. red x = x"
    by (rule ventas_por_categoria_suma
        [OF c sin_redondeo_exacto [OF that, of "\<Sum>f\<leftarrow>df_filtrado sel df. \<bar>col_total f\<bar>"]])
      simp_all
  moreover have "ventas_totales redondear (df_filtrado sel df) =
        sum_columna redondear (map snd (ventas_por_categoria redondear (df_filtrado sel df)))"
    if "\<forall>f \<in> set (df_filtrado sel df). col_total f \<in> \<int>"
      and "(\<Sum>f\<leftarrow>df_filtrado sel df. \<bar>col_total f\<bar>) \<le> 2 ^ 53"
    by (rule ventas_por_categoria_suma [OF c sin_redondeo_enteros that])
  ultimately show ?thesis by blast
qed

theorem ventas_totales_por_categoria_witness:
  "normalizar ucd_extracto [fila1, fila3] = Inr [fila1n, fila3n] \<and>
   df_filtrado sel1 [fila1n, fila3n] = [fila1n, fila3n] \<and>
   col_total fila1n \<in> \<int> \<and> col_total fila3n \<in> \<int> \<and>
   \<bar>col_total fila1n\<bar> + \<bar>col_total fila3n\<bar> \<le> 2 ^ 53 \<and>
   ventas_totales (\<lambda>x. x) [fila1n, fila3n] = 1200300 \<and>
   sum_columna (\<lambda>x. x) (map snd (ventas_por_categoria (\<lambda>x. x) [fila1n, fila3n])) = 1200300 \<and>
   ventas_totales redondear [fila1n, fila3n] =
     sum_columna redondear (map snd (ventas_por_categoria redondear [fila1n, fila3n]))"
proof -
  have 1: "col_total fila1n = 1200000" and 2: "col_total fila3n = 300"
    by (simp_all add: columnas ejemplos)
  have 3: "ventas_totales (\<lambda>x. x) [fila1n, fila3n] = 1200300"
    by (simp add: ventas_totales_def sum_columna_corta 1 2)
  from 1 2 3 filtro_ejemplo normalizar_ejemplo
    ventas_totales_por_categoria [OF normalizar_ejemplo, of "\<lambda>x. x" sel1]
  show ?thesis by simp
qed

text \<open>
  With the amounts 0.1, 0.2 and 0.3 in float64, the first of the category Books and
  the two others of the category Electronics, the total sales are
  0.6000000000000001 (\<open>(0.1 + 0.2) + 0.3\<close>) and the totals by category, 0.1 and 0.5,
  add up to 0.6: the two differ in the last bit.
\<close>

theorem ventas_totales_decimales:
  "normalizar ucd_extracto vista_d = Inr vista_d \<and>
   df_filtrado sel_d vista_d = vista_d \<and>
   ventas_totales redondear (df_filtrado sel_d vista_d) =
     5404319552844596 / 9007199254740992 \<and>
   sum_columna redondear (map snd (ventas_por_categoria redondear (df_filtrado sel_d vista_d))) =
     5404319552844595 / 9007199254740992"
  by (simp add: vista_d_normal vista_d_filtro ventas_totales_def vista_d_totales suma_decimales
      vista_d_categorias grupo_decimales_1 grupo_decimales_2 suma_categorias_decimales)

subsection \<open>The rollup by location\<close>

lemma moda_no_vacia:
  assumes "dropna x \<noteq> []"
  shows "mode x \<noteq> []"
proof -
  let ?vs = "dropna x"
  let ?c = "count_list ?vs"
  from assms have ne: "set ?vs \<noteq> {}" by (simp only: set_empty not_False_eq_True)
  have "Max (?c ` set ?vs) \<in> ?c ` set ?vs"
    using ne by (intro Max_in) simp_all
  then obtain k where k: "k \<in> set ?vs" "?c k = Max (?c ` set ?vs)" by auto
  have "\<forall>v \<in> set ?vs. ?c v \<le> ?c k"
    using k(2) by (simp add: Max_ge)
  with k(1) have "k \<in> set (mode x)"
    by (simp add: mode_def Let_def)
  then show ?thesis by auto
qed

lemma moda_ordenada: "sorted (mode x)"
  by (simp add: mode_def Let_def sorted_wrt_filter)

lemma moda_miembro:
  "k \<in> set (mode x) =
   (Some k \<in> set x \<and> (\<forall>v. count_list x (Some v) \<le> count_list x (Some k)))"
proof -
  have "(\<forall>v \<in> set (dropna x). count_list (dropna x) v \<le> count_list (dropna x) k) =
        (\<forall>v. count_list x (Some v) \<le> count_list x (Some k))"
    by (auto simp: count_list_dropna set_dropna) (metis count_list_0_iff le0)
  then show ?thesis
    by (simp add: mode_def Let_def set_dropna)
qed

text \<open>
  C9. For every row of the rollup, the average ticket is the sum of the sales divided
  by the number of transactions when that number is positive, and 0 when it is zero;
  the division is never reached with a zero divisor, so it never raises.
\<close>

theorem avg_venta_definido:
  "avg_venta row =
     Inr (if num_transacciones row > 0
          then u_ventas_totales row / real (num_transacciones row) else 0) \<and>
   avg_venta row \<noteq> Inl ZeroDivisionError"
  by (simp add: avg_venta_def dividir_def)

text \<open>
  C10. The segment of a group of the rollup is \<open>segmento_principal_de\<close> of the segments
  of its rows. It is \<^verbatim>\<open>N/A\<close> when no row of the group has a segment. Otherwise it is a
  segment of the group that no other segment exceeds in frequency, and among the
  segments of that frequency it is the least in the order of texts (by code points).
\<close>

theorem segmento_principal_moda:
  "(dropna x = [] \<longrightarrow> segmento_principal_de x = texto_de ''N/A'') \<and>
   (dropna x \<noteq> [] \<longrightarrow>
      Some (segmento_principal_de x) \<in> set x \<and>
      (\<forall>v. count_list x (Some v) \<le> count_list x (Some (segmento_principal_de x))) \<and>
      (\<forall>v. Some v \<in> set x \<and>
            count_list x (Some v) = count_list x (Some (segmento_principal_de x)) \<longrightarrow>
            segmento_principal_de x \<le> v)) \<and>
   (\<forall>u \<in> set (coordenadas_unicas geo).
      segmento_principal u =
        segmento_principal_de
          (map (\<lambda>r. segmento (fst r)) (grupo_ubicacion geo (u_latitud u, u_longitud u, u_ciudad u))))"
proof -
  have 1: "dropna x = [] \<longrightarrow> segmento_principal_de x = texto_de ''N/A''"
    by (simp add: segmento_principal_de_def mode_def)
  have 2: "dropna x \<noteq> [] \<longrightarrow>
      Some (segmento_principal_de x) \<in> set x \<and>
      (\<forall>v. count_list x (Some v) \<le> count_list x (Some (segmento_principal_de x))) \<and>
      (\<forall>v. Some v \<in> set x \<and>
            count_list x (Some v) = count_list x (Some (segmento_principal_de x)) \<longrightarrow>
            segmento_principal_de x \<le> v)"
  proof
    assume "dropna x \<noteq> []"
    from moda_no_vacia [OF this] obtain m ms where mm: "mode x = m # ms"
      by (cases "mode x") auto
    then have r: "segmento_principal_de x = m"
      by (simp add: segmento_principal_de_def)
    from mm have "m \<in> set (mode x)" by simp
    then have m1: "Some m \<in> set x"
      and m2: "\<forall>v. count_list x (Some v) \<le> count_list x (Some m)"
      by (simp_all add: moda_miembro)
    have "m \<le> v" if "Some v \<in> set x" and "count_list x (Some v) = count_list x (Some m)" for v
    proof -
      from that m2 have "v \<in> set (mode x)"
        by (simp add: moda_miembro)
      with mm moda_ordenada [of x] show ?thesis
        by auto
    qed
    with m1 m2 r show "Some (segmento_principal_de x) \<in> set x \<and>
      (\<forall>v. count_list x (Some v) \<le> count_list x (Some (segmento_principal_de x))) \<and>
      (\<forall>v. Some v \<in> set x \<and>
            count_list x (Some v) = count_list x (Some (segmento_principal_de x)) \<longrightarrow>
            segmento_principal_de x \<le> v)"
      by simp
  qed
  have 3: "\<forall>u \<in> set (coordenadas_unicas geo).
      segmento_principal u =
        segmento_principal_de
          (map (\<lambda>r. segmento (fst r)) (grupo_ubicacion geo (u_latitud u, u_longitud u, u_ciudad u)))"
    by (auto simp: coordenadas_unicas_def Let_def)
  from 1 2 3 show ?thesis by blast
qed

theorem segmento_principal_moda_witness:
  "dropna [None, None :: texto option] = [] \<and>
   segmento_principal_de [None, None] = texto_de ''N/A'' \<and>
   dropna [Some (texto_de ''b''), Some (texto_de ''a''), None, Some (texto_de ''b''),
      Some (texto_de ''a''), Some (texto_de ''c'')] \<noteq> [] \<and>
   segmento_principal_de [Some (texto_de ''b''), Some (texto_de ''a''), None, Some (texto_de ''b''),
      Some (texto_de ''a''), Some (texto_de ''c'')] = texto_de ''a'' \<and>
   map segmento_principal (coordenadas_unicas (df_clientes_geo [cl1] [fila1n, fila3n])) =
     [texto_de ''PREMIUM'']"
proof -
  have 1: "dropna [None, None :: texto option] = []"
    and 2: "dropna [Some (texto_de ''b''), Some (texto_de ''a''), None, Some (texto_de ''b''),
      Some (texto_de ''a''), Some (texto_de ''c'')] \<noteq> []"
    by (simp_all add: dropna_def)
  have 3: "segmento_principal_de [Some (texto_de ''b''), Some (texto_de ''a''), None, Some (texto_de ''b''),
      Some (texto_de ''a''), Some (texto_de ''c'')] = texto_de ''a''"
    by (simp add: segmento_principal_de_def mode_def dropna_def texto_de_def)
  have 4: "map segmento_principal (coordenadas_unicas (df_clientes_geo [cl1] [fila1n, fila3n])) =
     [texto_de ''PREMIUM'']"
    by (simp add: coordenadas_unicas_def df_clientes_geo_def df_clientes_filtrado_def
        ventas_por_ubicacion_def merge_left_def grupo_ubicacion_def clave_ubicacion_def
        segmento_principal_de_def mode_def dropna_def unique_def columnas ejemplos)
  from segmento_principal_moda [of "[None, None]" "df_clientes_geo [cl1] [fila1n, fila3n]"]
  have 5: "segmento_principal_de [None, None] = texto_de ''N/A''"
    using 1 by blast
  from 1 2 3 4 5 show ?thesis by blast
qed

end
